theory Spec2Isabelle
  imports Complex_Main "HOL-Library.Multiset"
begin

section \<open>Tensors and Python errors\<close>

text \<open>
  A tensor is modelled by its flattened data, a list; the length of the list stands for
  the shape. In the losses, the advantage estimator and the critic target the elements
  are real numbers: floating-point numbers are idealised as reals there, so rounding and
  the non-finite values (inf, nan) are outside that part of the model.
\<close>

type_synonym tensor = "real list"

datatype py_error =
  ValueError | RuntimeError | IndexError | ZeroDivisionError | AssertionError | AttributeError
  | KeyError

text \<open>
  The parameter updates are about the values that parameters hold, so their tensors
  have floating-point elements with the non-finite values: a finite number, plus or
  minus infinity, or nan. Addition and multiplication follow IEEE 754 on the special
  values (\<open>0 * inf = nan\<close>, \<open>inf - inf = nan\<close>, nan propagates); on finite numbers they
  are the exact operations, without rounding or overflow, and the two zeros are one
  value, as they are for the comparison of floats.
\<close>

datatype fval = Fin real | PInf | NInf | NaN

fun is_finite :: "fval \<Rightarrow> bool" where
  "is_finite (Fin a) = True"
| "is_finite x = False"

fun fneg :: "fval \<Rightarrow> fval" where
  "fneg (Fin a) = Fin (- a)"
| "fneg PInf = NInf"
| "fneg NInf = PInf"
| "fneg NaN = NaN"

fun fadd :: "fval \<Rightarrow> fval \<Rightarrow> fval" where
  "fadd NaN y = NaN"
| "fadd x NaN = NaN"
| "fadd (Fin a) (Fin b) = Fin (a + b)"
| "fadd PInf NInf = NaN"
| "fadd NInf PInf = NaN"
| "fadd (Fin a) y = y"
| "fadd x y = x"

definition fsub :: "fval \<Rightarrow> fval \<Rightarrow> fval" where
  "fsub x y = fadd x (fneg y)"

text \<open>The product of an infinity with the sign of a finite factor.\<close>

definition signed_inf :: "fval \<Rightarrow> real \<Rightarrow> fval" where
  "signed_inf x a = (if a = 0 then NaN else if 0 < a then x else fneg x)"

fun fmul :: "fval \<Rightarrow> fval \<Rightarrow> fval" where
  "fmul NaN y = NaN"
| "fmul x NaN = NaN"
| "fmul (Fin a) (Fin b) = Fin (a * b)"
| "fmul (Fin a) y = signed_inf y a"
| "fmul x (Fin b) = signed_inf x b"
| "fmul PInf y = y"
| "fmul NInf y = fneg y"

type_synonym ftensor = "fval list"

section \<open>learning/common.py: soft_update and hard_update\<close>

text \<open>
  \<^verbatim>\<open>
  def soft_update(target, source, tau):
      for target_param, param in zip(target.parameters(), source.parameters()):
          target_param.data.copy_(tau * param.data + (1.0 - tau) * target_param.data)

  def hard_update(target, source):
      for target_param, param in zip(target.parameters(), source.parameters()):
          target_param.data.copy_(param.data)
  \<close>
  A module is modelled by the list of its parameter tensors, in the order of
  \<^verbatim>\<open>parameters()\<close>. The functions mutate the target in place; the model returns the
  new parameter list of the target. \<^verbatim>\<open>zip\<close> stops at the shorter list, so target
  parameters beyond the last source parameter stay as they are.

  Parameter tensors are taken as one-dimensional. PyTorch broadcasts a tensor of size 1
  against a tensor of any size: the sum does so in both directions, and \<^verbatim>\<open>copy_\<close>
  broadcasts its argument to the shape of the tensor it writes. Two sizes that differ
  and are both not 1 raise a RuntimeError.
\<close>

definition polyak :: "fval \<Rightarrow> fval \<Rightarrow> fval \<Rightarrow> fval" where
  "polyak tau p t = fadd (fmul tau p) (fmul (fsub (Fin 1) tau) t)"

text \<open>The value of \<^verbatim>\<open>tau * param.data + (1.0 - tau) * target_param.data\<close>.\<close>

definition soft_update_value :: "fval \<Rightarrow> ftensor \<Rightarrow> ftensor \<Rightarrow> py_error + ftensor" where
  "soft_update_value tau param target_param =
     (if length param = length target_param then Inr (map2 (polyak tau) param target_param)
      else if length param = 1 then Inr (map (polyak tau (hd param)) target_param)
      else if length target_param = 1 then Inr (map (\<lambda>p. polyak tau p (hd target_param)) param)
      else Inl RuntimeError)"

text \<open>\<^verbatim>\<open>dst.copy_(src)\<close>: the new data of \<open>dst\<close>.\<close>

definition copy_into :: "ftensor \<Rightarrow> ftensor \<Rightarrow> py_error + ftensor" where
  "copy_into dst src =
     (if length src = length dst then Inr src
      else if length src = 1 then Inr (replicate (length dst) (hd src))
      else Inl RuntimeError)"

fun soft_update :: "ftensor list \<Rightarrow> ftensor list \<Rightarrow> fval \<Rightarrow> py_error + ftensor list" where
  "soft_update (target_param # ts) (param # ps) tau =
     (case soft_update_value tau param target_param of
        Inl e \<Rightarrow> Inl e
      | Inr v \<Rightarrow>
          (case copy_into target_param v of
             Inl e \<Rightarrow> Inl e
           | Inr new_data \<Rightarrow>
               (case soft_update ts ps tau of
                  Inl e \<Rightarrow> Inl e
                | Inr r \<Rightarrow> Inr (new_data # r))))"
| "soft_update ts ps tau = Inr ts"

fun hard_update :: "ftensor list \<Rightarrow> ftensor list \<Rightarrow> py_error + ftensor list" where
  "hard_update (target_param # ts) (param # ps) =
     (case copy_into target_param param of
        Inl e \<Rightarrow> Inl e
      | Inr new_data \<Rightarrow>
          (case hard_update ts ps of
             Inl e \<Rightarrow> Inl e
           | Inr r \<Rightarrow> Inr (new_data # r)))"
| "hard_update ts ps = Inr ts"

text \<open>Positionally zipped parameters have the same shape.\<close>

definition matching_shapes :: "ftensor list \<Rightarrow> ftensor list \<Rightarrow> bool" where
  "matching_shapes target source =
     list_all (\<lambda>(target_param, param). length param = length target_param) (zip target source)"

text \<open>Every entry of every parameter is a finite number.\<close>

definition finite_params :: "ftensor list \<Rightarrow> bool" where
  "finite_params params = list_all (list_all is_finite) params"

section \<open>learning/common.py: MyBuffer\<close>

text \<open>
  \<^verbatim>\<open>
  class MyBuffer:
      def __init__(self, max_size=1000, device=None):
          self.storage = LazyTensorStorage(max_size=max_size, device=device)
          self._cursor = 0

      def extend(self, data):
          t = data.shape[-1]
          cursor = (self._cursor + torch.arange(t)) % self.storage.max_size
          index = self.storage.set(cursor, data.permute(1, 0))
          self._cursor = cursor[-1].item() + 1
          return index
  \<close>
  The storage class belongs to the torchrl library. Its state is modelled by the fields
  \<open>max_size\<close>, \<open>storage_len\<close> (\<^verbatim>\<open>_len\<close>), \<open>storage\<close> (\<^verbatim>\<open>_storage\<close>, one row per
  time step, \<open>None\<close> for a row that was never written) and \<open>shape1\<close>
  (\<^verbatim>\<open>_storage.shape[1]\<close>, \<open>None\<close> until the first \<^verbatim>\<open>set\<close> allocates the rows).
  \<^verbatim>\<open>set(cursor, data)\<close> raises \<open>storage_len\<close> to \<^verbatim>\<open>max(_len, max(cursor) + 1)\<close>
  and writes row \<open>k\<close> of the data at index \<open>cursor[k]\<close>, in order.
  The argument \<open>data\<close> of the model is the time-major list of rows, that is
  \<^verbatim>\<open>data.permute(1, 0)\<close>; each row holds one value per environment.
\<close>

record 'a MyBuffer =
  max_size :: nat
  storage :: "'a list option list"
  storage_len :: nat
  shape1 :: "nat option"
  cursor :: nat

definition MyBuffer_init :: "nat \<Rightarrow> 'a MyBuffer" where
  "MyBuffer_init m =
     \<lparr>max_size = m, storage = replicate m None, storage_len = 0, shape1 = None, cursor = 0\<rparr>"

definition storage_set :: "'a MyBuffer \<Rightarrow> nat list \<Rightarrow> 'a list list \<Rightarrow> 'a MyBuffer" where
  "storage_set b idx data =
     b\<lparr>storage_len := max (storage_len b) (Max (set idx) + 1),
       shape1 := (case shape1 b of None \<Rightarrow> Some (length (hd data)) | Some n \<Rightarrow> Some n),
       storage := fold (\<lambda>(i, row) st. st[i := Some row]) (zip idx data) (storage b)\<rparr>"

text \<open>
  \<open>extend\<close> returns the indices it wrote together with the new state. With an empty
  \<open>data\<close> the call fails, at the latest at \<^verbatim>\<open>cursor[-1]\<close>, and a storage of capacity
  zero makes the remainder fail.
\<close>

definition extend :: "'a MyBuffer \<Rightarrow> 'a list list \<Rightarrow> py_error + (nat list \<times> 'a MyBuffer)" where
  "extend b data =
     (let t = length data in
      if t = 0 then Inl IndexError
      else if max_size b = 0 then Inl ZeroDivisionError
      else
        let idx = map (\<lambda>k. (cursor b + k) mod max_size b) [0..<t];
            b' = storage_set b idx data
        in Inr (idx, b'\<lparr>cursor := last idx + 1\<rparr>))"

text \<open>A sequence of \<open>extend\<close> calls; the first exception ends it.\<close>

fun extend_all :: "'a MyBuffer \<Rightarrow> 'a list list list \<Rightarrow> py_error + (nat list list \<times> 'a MyBuffer)" where
  "extend_all b [] = Inr ([], b)"
| "extend_all b (data # rest) =
     (case extend b data of
        Inl e \<Rightarrow> Inl e
      | Inr (idx, b') \<Rightarrow>
          (case extend_all b' rest of
             Inl e \<Rightarrow> Inl e
           | Inr (idxs, b'') \<Rightarrow> Inr (idx # idxs, b'')))"

text \<open>The number of rows of the storage that hold an entry.\<close>

definition stored :: "'a MyBuffer \<Rightarrow> nat" where
  "stored b = length (filter (\<lambda>row. row \<noteq> None) (storage b))"

text \<open>
  \<^verbatim>\<open>
      def sample(self, batch_size, seq_len=80):
          if seq_len > self.storage._len:
              raise ValueError(...)
          if isinstance(batch_size, int):
              batch_size = torch.Size([batch_size])
          else:
              batch_size = torch.Size(batch_size)
          num_samples = batch_size.numel()
          sub_sample_idx = torch.randint(0, self.storage._storage.shape[1], (num_samples,))
          sub_trajs = vmap(sample_sub_traj, in_dims=1, randomness="different")(
              self.storage[:self.storage._len, sub_sample_idx], seq_len=seq_len)
          return sub_trajs

  def sample_sub_traj(traj, seq_len):
      t = torch.randint(0, traj.shape[0] - seq_len, (1,))
      t = t + torch.arange(seq_len)
      return traj[t]
  \<close>
  The random generator is an explicit argument: \<open>rng i\<close> is the \<open>i\<close>-th raw number it
  delivers. \<^verbatim>\<open>torch.randint(low, high, ...)\<close> draws from \<open>low \<le> x < high\<close> and raises a
  RuntimeError unless \<open>low < high\<close>; \<^verbatim>\<open>torch.arange\<close> of a negative bound raises too.
  \<^verbatim>\<open>vmap\<close> is modelled as a map over the sampled columns.
\<close>

definition randint :: "int \<Rightarrow> int \<Rightarrow> nat \<Rightarrow> py_error + int" where
  "randint low high raw =
     (if low < high then Inr (low + int raw mod (high - low)) else Inl RuntimeError)"

definition arange :: "int \<Rightarrow> py_error + int list" where
  "arange n = (if n < 0 then Inl RuntimeError else Inr (map int [0..<nat n]))"

text \<open>Indexing a tensor with a tensor of indices; negative indices count from the end.\<close>

definition index_select :: "'b list \<Rightarrow> int list \<Rightarrow> py_error + 'b list" where
  "index_select xs idx =
     (let n = int (length xs) in
      if list_all (\<lambda>i. - n \<le> i \<and> i < n) idx
      then Inr (map (\<lambda>i. xs ! nat (if i < 0 then i + n else i)) idx)
      else Inl IndexError)"

definition sample_sub_traj :: "'b list \<Rightarrow> int \<Rightarrow> nat \<Rightarrow> py_error + 'b list" where
  "sample_sub_traj traj seq_len raw =
     (case randint 0 (int (length traj) - seq_len) raw of
        Inl e \<Rightarrow> Inl e
      | Inr t \<Rightarrow>
          (case arange seq_len of
             Inl e \<Rightarrow> Inl e
           | Inr ks \<Rightarrow> index_select traj (map (\<lambda>k. t + k) ks)))"

text \<open>The results of a list of calls; the first exception wins.\<close>

fun collect :: "('e + 'b) list \<Rightarrow> 'e + 'b list" where
  "collect [] = Inr []"
| "collect (Inl e # rs) = Inl e"
| "collect (Inr x # rs) = (case collect rs of Inl e \<Rightarrow> Inl e | Inr xs \<Rightarrow> Inr (x # xs))"

text \<open>
  Column \<open>c\<close> of the first \<open>storage_len\<close> rows; a row that was never written yields
  \<open>None\<close>.
\<close>

definition storage_column :: "'a MyBuffer \<Rightarrow> nat \<Rightarrow> 'a option list" where
  "storage_column b c = map (map_option (\<lambda>row. row ! c)) (take (storage_len b) (storage b))"

definition sample :: "'a MyBuffer \<Rightarrow> nat list \<Rightarrow> int \<Rightarrow> (nat \<Rightarrow> nat) \<Rightarrow> py_error + 'a option list list" where
  "sample b batch_size seq_len rng =
     (if seq_len > int (storage_len b) then Inl ValueError
      else case shape1 b of
        None \<Rightarrow> Inl AttributeError
      | Some n \<Rightarrow>
          (let num_samples = prod_list batch_size in
           case collect (map (\<lambda>i. randint 0 (int n) (rng i)) [0..<num_samples]) of
             Inl e \<Rightarrow> Inl e
           | Inr sub_sample_idx \<Rightarrow>
               collect (map (\<lambda>(i, c). sample_sub_traj (storage_column b (nat c)) seq_len
                                        (rng (num_samples + i)))
                            (zip [0..<num_samples] sub_sample_idx))))"

section \<open>The minibatch generators make_batch and make_dataset_naive\<close>

text \<open>
  \<^verbatim>\<open>
  def make_batch(tensordict, num_minibatches):
      tensordict = tensordict.reshape(-1)
      perm = torch.randperm(
          (tensordict.shape[0] // num_minibatches) * num_minibatches,
          device=tensordict.device,
      ).reshape(num_minibatches, -1)
      for indices in perm:
          yield tensordict[indices]
  \<close>
  (learning/ppo/ppo.py and, with the same text, learning/ppo/ppo_adapt.py.)
  The argument \<open>n\<close> is the size of the flattened batch and \<open>k\<close> is
  \<^verbatim>\<open>num_minibatches\<close>, a count. A minibatch is modelled by the list of the indices
  of its transitions in the flattened batch, and the generator by the list of the
  minibatches it yields. The permutation that \<^verbatim>\<open>torch.randperm\<close> draws is the explicit
  argument \<open>perm\<close>; \<open>is_randperm m perm\<close> says that it is a possible outcome of
  \<^verbatim>\<open>torch.randperm(m)\<close>; a list of another length is none and is rejected.
  \<^verbatim>\<open>reshape(k, -1)\<close> cuts its input into \<open>k\<close> rows of equal length and fails when the
  length is not a multiple of \<open>k\<close>.
\<close>

definition is_randperm :: "nat \<Rightarrow> nat list \<Rightarrow> bool" where
  "is_randperm m perm = (mset perm = mset [0..<m])"

definition reshape_rows :: "nat \<Rightarrow> 'b list \<Rightarrow> py_error + 'b list list" where
  "reshape_rows k xs =
     (if length xs mod k \<noteq> 0 then Inl RuntimeError
      else let c = length xs div k in Inr (map (\<lambda>i. take c (drop (i * c) xs)) [0..<k]))"

definition make_batch :: "nat \<Rightarrow> nat \<Rightarrow> nat list \<Rightarrow> py_error + nat list list" where
  "make_batch n k perm =
     (if k = 0 then Inl ZeroDivisionError
      else if length perm \<noteq> (n div k) * k then Inl RuntimeError
      else reshape_rows k perm)"

text \<open>
  \<^verbatim>\<open>
  def make_dataset_naive(tensordict, num_minibatches=4, seq_len=1):
      if seq_len > 1:
          N, T = tensordict.shape
          T = (T // seq_len) * seq_len
          tensordict = tensordict[:, :T].reshape(-1, seq_len)
          perm = torch.randperm(
              (tensordict.shape[0] // num_minibatches) * num_minibatches, ...
          ).reshape(num_minibatches, -1)
          for indices in perm:
              yield tensordict[indices]
      else:
          tensordict = tensordict.reshape(-1)
          perm = torch.randperm(
              (tensordict.shape[0] // num_minibatches) * num_minibatches, ...
          ).reshape(num_minibatches, -1)
          for indices in perm:
              yield tensordict[indices]
  \<close>
  (learning/mappo.py.) The batch has shape \<open>(N, T)\<close>. With \<open>seq_len > 1\<close> the
  indices select windows of \<open>seq_len\<close> steps; otherwise they select transitions of the
  flattened batch.
\<close>

definition make_dataset_naive :: "nat \<times> nat \<Rightarrow> nat \<Rightarrow> nat \<Rightarrow> nat list \<Rightarrow> py_error + nat list list" where
  "make_dataset_naive shape k seq_len perm =
     (case shape of (N, T) \<Rightarrow>
        if seq_len > 1 then
          (let T' = (T div seq_len) * seq_len
           in make_batch (N * T' div seq_len) k perm)
        else make_batch (N * T) k perm)"

section \<open>The PPO losses\<close>

text \<open>
  \<^verbatim>\<open>torch.clamp(x, lo, hi)\<close> is \<open>min (max x lo) hi\<close>. \<^verbatim>\<open>torch.mean\<close> of an empty tensor
  is nan in PyTorch and \<open>0\<close> in this model.
\<close>

definition clamp :: "real \<Rightarrow> real \<Rightarrow> real \<Rightarrow> real" where
  "clamp x lo hi = min (max x lo) hi"

definition tensor_mean :: "tensor \<Rightarrow> real" where
  "tensor_mean xs = sum_list xs / real (length xs)"

text \<open>
  \<^verbatim>\<open>
  # PPOPolicy._update (learning/ppo/ppo.py)
  adv = tensordict["adv"]
  ratio = torch.exp(log_probs - tensordict["sample_log_prob"]).unsqueeze(-1)
  surr1 = adv * ratio
  surr2 = adv * ratio.clamp(1.-self.clip_param, 1.+self.clip_param)
  policy_loss = - torch.mean(torch.min(surr1, surr2)) * self.action_dim
  \<close>
  PPOAdaptivePolicy._update (learning/ppo/ppo_adapt.py) has the same five lines.
\<close>

definition PPOPolicy_policy_loss :: "real \<Rightarrow> nat \<Rightarrow> tensor \<Rightarrow> tensor \<Rightarrow> tensor \<Rightarrow> py_error + real" where
  "PPOPolicy_policy_loss clip_param action_dim log_probs sample_log_prob adv =
     (if length sample_log_prob \<noteq> length log_probs \<or> length adv \<noteq> length log_probs
      then Inl RuntimeError
      else
        let ratio = map2 (\<lambda>l s. exp (l - s)) log_probs sample_log_prob;
            surr1 = map2 (*) adv ratio;
            surr2 = map2 (*) adv (map (\<lambda>r. clamp r (1 - clip_param) (1 + clip_param)) ratio)
        in Inr (- tensor_mean (map2 min surr1 surr2) * real action_dim))"

definition PPOAdaptivePolicy_policy_loss :: "real \<Rightarrow> nat \<Rightarrow> tensor \<Rightarrow> tensor \<Rightarrow> tensor \<Rightarrow> py_error + real" where
  "PPOAdaptivePolicy_policy_loss clip_param action_dim log_probs sample_log_prob adv =
     (if length sample_log_prob \<noteq> length log_probs \<or> length adv \<noteq> length log_probs
      then Inl RuntimeError
      else
        let ratio = map2 (\<lambda>l s. exp (l - s)) log_probs sample_log_prob;
            surr1 = map2 (*) adv ratio;
            surr2 = map2 (*) adv (map (\<lambda>r. clamp r (1 - clip_param) (1 + clip_param)) ratio)
        in Inr (- tensor_mean (map2 min surr1 surr2) * real action_dim))"

text \<open>
  \<^verbatim>\<open>
  # MAPPOPolicy.update_actor (learning/mappo.py)
  assert advantages.shape == log_probs.shape == dist_entropy.shape
  ratio = torch.exp(log_probs - log_probs_old)
  surr1 = ratio * advantages
  surr2 = (
      torch.clamp(ratio, 1.0 - self.clip_param, 1.0 + self.clip_param)
      * advantages
  )
  policy_loss = - torch.mean(torch.min(surr1, surr2) * self.act_dim)
  \<close>
\<close>

definition MAPPOPolicy_policy_loss ::
  "real \<Rightarrow> nat \<Rightarrow> tensor \<Rightarrow> tensor \<Rightarrow> tensor \<Rightarrow> tensor \<Rightarrow> py_error + real" where
  "MAPPOPolicy_policy_loss clip_param act_dim log_probs log_probs_old advantages dist_entropy =
     (if \<not> (length advantages = length log_probs \<and> length log_probs = length dist_entropy)
      then Inl AssertionError
      else if length log_probs_old \<noteq> length log_probs then Inl RuntimeError
      else
        let ratio = map2 (\<lambda>l s. exp (l - s)) log_probs log_probs_old;
            surr1 = map2 (*) ratio advantages;
            surr2 = map2 (*) (map (\<lambda>r. clamp r (1 - clip_param) (1 + clip_param)) ratio) advantages
        in Inr (- tensor_mean (map (\<lambda>x. x * real act_dim) (map2 min surr1 surr2))))"

text \<open>
  The policy loss in the words of the specification: the negated mean of the clipped
  surrogate, scaled by the action dimension.
\<close>

definition spec_policy_loss :: "real \<Rightarrow> nat \<Rightarrow> tensor \<Rightarrow> tensor \<Rightarrow> tensor \<Rightarrow> real" where
  "spec_policy_loss eps action_dim log_prob log_prob_at_collection adv =
     - ((\<Sum>i<length adv.
           min (exp (log_prob ! i - log_prob_at_collection ! i) * adv ! i)
               (clamp (exp (log_prob ! i - log_prob_at_collection ! i)) (1 - eps) (1 + eps) * adv ! i))
        / real (length adv)) * real action_dim"

text \<open>
  The critic losses. \<^verbatim>\<open>nn.MSELoss\<close> and \<^verbatim>\<open>nn.HuberLoss\<close> act on each element; with
  \<^verbatim>\<open>reduction="none"\<close> the result is the tensor of these values, with the default
  reduction it is their mean.
\<close>

definition MSELoss :: "real \<Rightarrow> real \<Rightarrow> real" where
  "MSELoss x y = (x - y)\<^sup>2"




text \<open>
  \<^verbatim>\<open>
  # PPOPolicy (learning/ppo/ppo.py)
  self.critic_loss_fn = nn.MSELoss(reduction="none")
  ...
  b_returns = tensordict["ret"]
  values = self.critic(tensordict)["state_value"]
  value_loss = self.critic_loss_fn(b_returns, values)
  value_loss = (value_loss * (~tensordict["is_init"])).mean()
  \<close>
  In a minibatch of \<open>B\<close> transitions the returns and the predictions have the shape
  \<open>[B, n_agents, 1]\<close>: a list of \<open>B\<close> rows of \<open>n_agents\<close> numbers. The flag
  \<^verbatim>\<open>is_init\<close>, which the \<^verbatim>\<open>InitTracker\<close> transform of the training scripts adds, has the
  shape \<open>[M, 1]\<close> (with \<open>M = B\<close> in a minibatch): a list of \<open>M\<close> flags. Nothing
  reshapes it, so the product is formed under PyTorch's broadcasting, which aligns the
  shapes from the right: the dimension of size \<open>n_agents\<close> meets the one of size \<open>M\<close>.
  \<open>broadcast_mul n x m\<close> is that product for \<open>x\<close> of shape \<open>[B, n, 1]\<close> and \<open>m\<close> of
  shape \<open>[M, 1]\<close>; its shape is \<open>[B, max n M, 1]\<close>.
\<close>

definition broadcast_mul :: "nat \<Rightarrow> real list list \<Rightarrow> real list \<Rightarrow> py_error + real list list" where
  "broadcast_mul n x m =
     (if length m = n then Inr (map (\<lambda>row. map2 (*) row m) x)
      else if n = 1 then Inr (map (\<lambda>row. map (\<lambda>c. hd row * c) m) x)
      else if length m = 1 then Inr (map (\<lambda>row. map (\<lambda>e. e * hd m) row) x)
      else Inl RuntimeError)"

definition PPOPolicy_value_loss ::
  "nat \<Rightarrow> real list list \<Rightarrow> real list list \<Rightarrow> bool list \<Rightarrow> py_error + real" where
  "PPOPolicy_value_loss n_agents values b_returns is_init =
     (if \<not> (length values = length b_returns
             \<and> list_all (\<lambda>row. length row = n_agents) values
             \<and> list_all (\<lambda>row. length row = n_agents) b_returns)
      then Inl RuntimeError
      else
        let value_loss = map2 (map2 MSELoss) b_returns values
        in case broadcast_mul n_agents value_loss (map (\<lambda>init. of_bool (\<not> init)) is_init) of
             Inl e \<Rightarrow> Inl e
           | Inr masked \<Rightarrow> Inr (tensor_mean (concat masked)))"


section \<open>learning/sac.py: the target of the critic update\<close>

text \<open>
  \<^verbatim>\<open>
  # Critic.__init__(self, cfg, num_agents, state_spec, action_spec, num_critics=2)
  self.critics = nn.ModuleList([self._make_critic() for _ in range(self.num_critics)])

  # Critic.forward
  x = torch.cat([state, actions], dim=-1)
  return torch.stack([critic(x) for critic in self.critics], dim=-1)

  # MASACPolicy.train_op
  with torch.no_grad():
      actor_output = self.actor(transition["next"], deterministic=False)
      next_act = actor_output[self.act_name]
      next_logp = actor_output[f"{self.agent_spec.name}.logp"]
      next_qs = self.critic_target(next_state, next_act)
      next_q = torch.min(next_qs, dim=-1, keepdim=True).values
      next_q = next_q - self.log_alpha.exp() * next_logp
      target_q = (reward + self.cfg.gamma * (1 - next_dones) * next_q).detach().squeeze(-1)
      assert not torch.isinf(target_q).any()
      assert not torch.isnan(target_q).any()
  \<close>
  Every operation acts on each element of the batch on its own; the model is the
  computation for one element. A critic network is a function of the state and the
  actions, and the ensemble is the list of its networks. The action \<open>next_act\<close> and its
  log-probability \<open>next_logp\<close> are what the actor returned. \<^verbatim>\<open>torch.min\<close> over a dimension
  of size zero raises an IndexError. The two assertions cannot fail on real numbers.
\<close>

definition Critic_forward :: "('s \<times> 'c \<Rightarrow> real) list \<Rightarrow> 's \<Rightarrow> 'c \<Rightarrow> real list" where
  "Critic_forward critics state actions = map (\<lambda>critic. critic (state, actions)) critics"

definition min_last_dim :: "real list \<Rightarrow> py_error + real" where
  "min_last_dim qs = (case qs of [] \<Rightarrow> Inl IndexError | q # rest \<Rightarrow> Inr (fold min rest q))"

definition target_q ::
  "real \<Rightarrow> real \<Rightarrow> ('s \<times> 'c \<Rightarrow> real) list \<Rightarrow> real \<Rightarrow> bool \<Rightarrow> 's \<Rightarrow> 'c \<Rightarrow> real \<Rightarrow> py_error + real" where
  "target_q gamma log_alpha critic_target reward next_dones next_state next_act next_logp =
     (let next_qs = Critic_forward critic_target next_state next_act in
      case min_last_dim next_qs of
        Inl e \<Rightarrow> Inl e
      | Inr next_q \<Rightarrow>
          (let next_q' = next_q - exp log_alpha * next_logp
           in Inr (reward + gamma * (1 - of_bool next_dones) * next_q')))"

section \<open>The advantage estimator\<close>

text \<open>
  Modelled from the spec: the class \<^verbatim>\<open>GAE\<close> of learning/ppo/common.py, which
  \<^verbatim>\<open>PPOPolicy\<close> creates as \<^verbatim>\<open>GAE(0.99, 0.95)\<close> and calls as
  \<^verbatim>\<open>self.gae(rewards, terms, dones, values, next_values)\<close>, is not among the sources.
  \<open>gae_advantage\<close> is one step of the recursion of section 4.1 of the specification:
  \<^verbatim>\<open>
  not_done = 1 - done[t]
  delta      = r[t] + gamma * v[t+1] * not_done - v[t]
  mask_term  = 1 - term[t]
  adv[t]     = delta + gamma * lmbda * not_done * mask_term * adv[t+1]
  \<close>
\<close>

definition gae_advantage ::
  "real \<Rightarrow> real \<Rightarrow> real \<Rightarrow> bool \<Rightarrow> bool \<Rightarrow> real \<Rightarrow> real \<Rightarrow> real \<Rightarrow> real" where
  "gae_advantage gamma lmbda r term done v next_v next_adv =
     (let not_done = 1 - of_bool done;
          delta = r + gamma * next_v * not_done - v;
          mask_term = 1 - of_bool term
      in delta + gamma * lmbda * not_done * mask_term * next_adv)"

text \<open>
  Modelled from the spec: the backward recursion of section 4.1 for \<open>t = T-1 \<dots> 0\<close> over
  the steps \<open>(r[t], term[t], done[t], v[t], v[t+1])\<close> of one trajectory; the advantage
  after the last step is \<open>0\<close> (end-to-end scenario 1).
\<close>

fun gae_backward :: "real \<Rightarrow> real \<Rightarrow> (real \<times> bool \<times> bool \<times> real \<times> real) list \<Rightarrow> real list" where
  "gae_backward gamma lmbda [] = []"
| "gae_backward gamma lmbda ((r, term, done, v, next_v) # rest) =
     (let advs = gae_backward gamma lmbda rest;
          next_adv = (case advs of [] \<Rightarrow> 0 | a # _ \<Rightarrow> a)
      in gae_advantage gamma lmbda r term done v next_v next_adv # advs)"

text \<open>
  Modelled from the spec: the estimator returns \<open>(advantage, return)\<close> with
  \<open>ret[t] = adv[t] + v[t]\<close>. Its five inputs are those of the call in
  \<^verbatim>\<open>PPOPolicy._compute_advantage\<close>; \<open>next_values\<close> holds \<open>v[t+1]\<close> for every step, its
  last element being the bootstrap value.
\<close>

definition GAE ::
  "real \<Rightarrow> real \<Rightarrow> tensor \<Rightarrow> bool list \<Rightarrow> bool list \<Rightarrow> tensor \<Rightarrow> tensor \<Rightarrow> py_error + (tensor \<times> tensor)" where
  "GAE gamma lmbda rewards terms dones vals next_values =
     (if \<not> (length terms = length rewards \<and> length dones = length rewards
             \<and> length vals = length rewards \<and> length next_values = length rewards)
      then Inl RuntimeError
      else
        let adv = gae_backward gamma lmbda
                    (zip rewards (zip terms (zip dones (zip vals next_values))))
        in Inr (adv, map2 (+) adv vals))"

text \<open>
  \<^verbatim>\<open>
  # PPOPolicy.__init__
  self.gae = GAE(0.99, 0.95)
  self.value_norm = ValueNormFake(reward_spec["reward"].shape[-1]).to(self.device)

  # PPOPolicy._compute_advantage
  rewards = tensordict[REWARD_KEY].sum(-1, keepdim=True)
  terms = tensordict[TERM_KEY]
  dones = tensordict[DONE_KEY]
  values = self.value_norm.denormalize(values)
  next_values = self.value_norm.denormalize(next_values)
  adv, ret = self.gae(rewards, terms, dones, values, next_values)
  if update_value_norm:
      self.value_norm.update(ret)
  ret = self.value_norm.normalize(ret)
  \<close>
  The model is one trajectory of the batch; \<open>reward\<close> holds the reward heads of each
  step. The update of the value normaliser changes the normaliser only.
\<close>

text \<open>
  Modelled from the spec: the class \<^verbatim>\<open>ValueNormFake\<close> of learning/utils/valuenorm.py is
  not among the sources. Section 4.2 of the specification describes it as the
  pass-through variant that performs no scaling, so \<^verbatim>\<open>denormalize\<close> returns its
  argument.
\<close>

definition ValueNormFake_denormalize :: "tensor \<Rightarrow> tensor" where
  "ValueNormFake_denormalize x = x"

text \<open>
  Modelled from the spec: \<^verbatim>\<open>normalize\<close> of the same pass-through variant returns its
  argument.
\<close>

definition ValueNormFake_normalize :: "tensor \<Rightarrow> tensor" where
  "ValueNormFake_normalize x = x"

definition PPOPolicy_compute_advantage ::
  "real list list \<Rightarrow> bool list \<Rightarrow> bool list \<Rightarrow> tensor \<Rightarrow> tensor \<Rightarrow> py_error + (tensor \<times> tensor)" where
  "PPOPolicy_compute_advantage reward terms dones vals next_values =
     (let rewards = map sum_list reward;
          vals' = ValueNormFake_denormalize vals;
          next_values' = ValueNormFake_denormalize next_values
      in case GAE (99/100) (95/100) rewards terms dones vals' next_values' of
           Inl e \<Rightarrow> Inl e
         | Inr (adv, ret) \<Rightarrow> Inr (adv, ValueNormFake_normalize ret))"

text \<open>
  \<^verbatim>\<open>
  # MAPPOPolicy._get_dones (learning/mappo.py)
  env_done = tensordict[("next", "done")].unsqueeze(-1)
  agent_done = tensordict.get(
      ("next", f"{self.agent_spec.name}.done"),
      env_done.expand(*env_done.shape[:-2], self.agent_spec.n, 1),
  )
  done = agent_done | env_done

  # MAPPOPolicy.train_op
  rewards = tensordict.get(("next", "reward", f"{self.agent_spec.name}.reward"))
  values = tensordict["state_value"]
  next_value = value_output["state_value"].squeeze(0)
  if hasattr(self, "value_normalizer"):
      values = self.value_normalizer.denormalize(values)
      next_value = self.value_normalizer.denormalize(next_value)
  dones = self._get_dones(tensordict)
  tensordict["advantages"], tensordict["returns"] = compute_gae(
      rewards, dones, values, next_value,
      gamma=self.gae_gamma, lmbda=self.gae_lambda,
  )
  \<close>
  A rollout is the part of a transition batch that the estimators read, for one
  trajectory and one agent: the rewards, the termination flags, the done flags of the
  environment, the done flags of the agent when the batch has them, and the values
  recorded at collection time. The function \<^verbatim>\<open>compute_gae\<close> of learning/utils/gae.py and
  the value normaliser are not among the sources; they are the parameters \<open>compute_gae\<close>
  and \<open>denormalize\<close> (the identity when the policy has no normaliser). \<open>next_value\<close> is
  the value of the critic after the last step.
\<close>

datatype rollout =
  Rollout (rollout_reward: "real list") (rollout_terminated: "bool list")
    (rollout_done: "bool list") (rollout_agent_done: "bool list option")
    (rollout_state_value: "real list")

definition MAPPOPolicy_get_dones :: "rollout \<Rightarrow> bool list" where
  "MAPPOPolicy_get_dones tensordict =
     (let env_done = rollout_done tensordict;
          agent_done = (case rollout_agent_done tensordict of None \<Rightarrow> env_done | Some d \<Rightarrow> d)
      in map2 (\<or>) agent_done env_done)"

definition MAPPOPolicy_train_op_gae ::
  "(real list \<Rightarrow> bool list \<Rightarrow> real list \<Rightarrow> real \<Rightarrow> real \<Rightarrow> real \<Rightarrow> 'r) \<Rightarrow> (real \<Rightarrow> real)
     \<Rightarrow> real \<Rightarrow> real \<Rightarrow> rollout \<Rightarrow> real \<Rightarrow> 'r" where
  "MAPPOPolicy_train_op_gae compute_gae denormalize gae_gamma gae_lambda tensordict next_value =
     (let rewards = rollout_reward tensordict;
          vals = map denormalize (rollout_state_value tensordict);
          next_value' = denormalize next_value;
          dones = MAPPOPolicy_get_dones tensordict
      in compute_gae rewards dones vals next_value' gae_gamma gae_lambda)"

text \<open>
  \<^verbatim>\<open>
  # PPOAdaptivePolicy._train_policy (learning/ppo/ppo_adapt.py)
  rewards = tensordict[("next", "agents", "reward")]
  dones = (
      tensordict[("next", "done")]
      .expand(-1, -1, self.n_agents)
      .unsqueeze(-1)
  )
  values = tensordict["state_value"]
  values = self.value_norm.denormalize(values)
  next_values = self.value_norm.denormalize(next_values)
  adv, ret = compute_gae(rewards, dones, values, next_values)
  \<close>
\<close>

definition PPOAdaptivePolicy_train_policy_gae ::
  "(real list \<Rightarrow> bool list \<Rightarrow> real list \<Rightarrow> real \<Rightarrow> 'r) \<Rightarrow> (real \<Rightarrow> real) \<Rightarrow> rollout \<Rightarrow> real \<Rightarrow> 'r" where
  "PPOAdaptivePolicy_train_policy_gae compute_gae denormalize tensordict next_values =
     (let rewards = rollout_reward tensordict;
          dones = rollout_done tensordict;
          vals = map denormalize (rollout_state_value tensordict);
          next_values' = denormalize next_values
      in compute_gae rewards dones vals next_values')"

section \<open>learning/ppo/ppo_adapt.py: the adaptation phase\<close>

text \<open>
  The adaptation phase is modelled by the flow of gradient information. The value of
  a tensor is left out; what is kept is its graph: the set of the networks whose
  parameters a backward pass from this tensor reaches. A tensordict maps each of its
  keys to the graph of its entry. Data that the collector delivered has the empty graph.

  A forward pass of a module reads its input keys and writes its output keys. Under
  \<^verbatim>\<open>torch.no_grad()\<close> the outputs have the empty graph. Otherwise their graph holds the
  graphs of the inputs and the networks that own the parameters of the module, but for
  the networks that are held out: \<^verbatim>\<open>hold_out_net(net)\<close> switches \<^verbatim>\<open>requires_grad\<close> of
  the parameters of \<open>net\<close> off for the forward passes made inside the context. The
  graph of an entry is fixed when the entry is written; reading it later, inside or
  outside any context, returns that graph. Reading a key that is absent raises a
  KeyError.
\<close>

datatype network = Encoder | AdaptationModule | Discriminator

datatype adaptation_loss_kind = MSE | GAN | LSGAN

datatype loss_term = Regression_loss | D_loss | G_loss | LS_loss

type_synonym graph = "network set"

type_synonym tensordict = "string \<Rightarrow> graph option"

definition then_do :: "py_error + 'b \<Rightarrow> ('b \<Rightarrow> py_error + 'c) \<Rightarrow> py_error + 'c" where
  "then_do r f = (case r of Inl e \<Rightarrow> Inl e | Inr x \<Rightarrow> f x)"

definition td_get :: "tensordict \<Rightarrow> string \<Rightarrow> py_error + graph" where
  "td_get td k = (case td k of None \<Rightarrow> Inl KeyError | Some g \<Rightarrow> Inr g)"

definition module_forward ::
  "bool \<Rightarrow> network set \<Rightarrow> network set \<Rightarrow> string list \<Rightarrow> string list \<Rightarrow> tensordict
     \<Rightarrow> py_error + tensordict" where
  "module_forward grad_enabled held_out owners in_keys out_keys td =
     (if \<not> list_all (\<lambda>k. td k \<noteq> None) in_keys then Inl KeyError
      else
        let inputs = \<Union> (set (map (\<lambda>k. the (td k)) in_keys));
            g = (if grad_enabled then (owners - held_out) \<union> inputs else {})
        in Inr (fold (\<lambda>k m. m(k \<mapsto> g)) out_keys td))"

text \<open>
  \<^verbatim>\<open>
  # PPOAdaptivePolicy.__init__
  self.encoder = TensorDictModule(
      nn.Sequential(nn.LayerNorm(intrinsics_dim), make_mlp([64, 64])),
      [("agents", "intrinsics")], ["context"]
  ).to(self.device)
  ...
  self.adaptation_module = TensorDictModule(
      TConv(fake_input[self.adaptation_key].shape[-1]),
      [("agents", "observation_h")], [self.adaptation_key]
  ).to(self.device)
  ...
  discriminator = TensorDictSequential(
      TensorDictModule(TConv(128), [("agents", "observation_h")], ["condition"]),
      CatTensors([self.adaptation_key, "condition"], "condition", del_keys=False),
      TensorDictModule(
          nn.Sequential(make_mlp([256, 256]), nn.LazyLinear(1)),
          ["condition"], ["label"]
      )
  )
  \<close>
  The argument \<open>key\<close> is \<^verbatim>\<open>self.adaptation_key\<close>. \<^verbatim>\<open>CatTensors\<close> has no parameters.
\<close>

definition encoder_forward :: "bool \<Rightarrow> network set \<Rightarrow> tensordict \<Rightarrow> py_error + tensordict" where
  "encoder_forward grad_enabled held_out td =
     module_forward grad_enabled held_out {Encoder} [''agents.intrinsics''] [''context''] td"

definition adaptation_module_forward ::
  "bool \<Rightarrow> network set \<Rightarrow> string \<Rightarrow> tensordict \<Rightarrow> py_error + tensordict" where
  "adaptation_module_forward grad_enabled held_out key td =
     module_forward grad_enabled held_out {AdaptationModule} [''agents.observation_h''] [key] td"

definition discriminator_forward ::
  "bool \<Rightarrow> network set \<Rightarrow> string \<Rightarrow> tensordict \<Rightarrow> py_error + tensordict" where
  "discriminator_forward grad_enabled held_out key td =
     then_do (module_forward grad_enabled held_out {Discriminator}
                [''agents.observation_h''] [''condition''] td) (\<lambda>td1.
     then_do (module_forward grad_enabled held_out {} [key, ''condition''] [''condition''] td1)
       (\<lambda>td2.
     module_forward grad_enabled held_out {Discriminator} [''condition''] [''label''] td2))"

text \<open>
  \<^verbatim>\<open>
  # MSE.forward
  target = tensordict.get(self.key)
  pred = self.adaptation_module(tensordict).get(self.key)
  loss = F.mse_loss(pred, target)
  return loss
  \<close>
  A loss function returns the terms of the loss it hands back, each with its graph;
  the loss is their sum.
\<close>

definition MSE_forward :: "string \<Rightarrow> tensordict \<Rightarrow> py_error + (loss_term \<times> graph) list" where
  "MSE_forward key td =
     then_do (td_get td key) (\<lambda>target.
     then_do (adaptation_module_forward True {} key td) (\<lambda>td1.
     then_do (td_get td1 key) (\<lambda>pred.
     Inr [(Regression_loss, pred \<union> target)])))"

text \<open>
  \<^verbatim>\<open>
  # GAN.forward
  true_label = self.discriminator(tensordict).get("label")
  with torch.no_grad():
      self.adaptation_module(tensordict)
  fake_label = self.discriminator(tensordict).get("label")
  d_loss = (
      self.loss(true_label, torch.ones_like(true_label))
      + self.loss(fake_label, torch.zeros_like(fake_label))
  )
  accuracy = ...
  with hold_out_net(self.discriminator):
      fake_label = self.adaptation_module(tensordict).get("label")
      g_loss = self.loss(fake_label, torch.ones_like(fake_label))
  return d_loss + g_loss
  \<close>
\<close>

definition GAN_forward :: "string \<Rightarrow> tensordict \<Rightarrow> py_error + (loss_term \<times> graph) list" where
  "GAN_forward key td =
     then_do (discriminator_forward True {} key td) (\<lambda>td1.
     then_do (td_get td1 ''label'') (\<lambda>true_label.
     then_do (adaptation_module_forward False {} key td1) (\<lambda>td2.
     then_do (discriminator_forward True {} key td2) (\<lambda>td3.
     then_do (td_get td3 ''label'') (\<lambda>fake_label.
     let d_loss = true_label \<union> fake_label in
     then_do (adaptation_module_forward True {Discriminator} key td3) (\<lambda>td4.
     then_do (td_get td4 ''label'') (\<lambda>fake_label'.
     let g_loss = fake_label' in
     Inr [(D_loss, d_loss), (G_loss, g_loss)])))))))"

text \<open>
  \<^verbatim>\<open>
  # LSGAN.forward
  true_label = self.discriminator(tensordict).get("label")
  self.adaptation_module(tensordict)
  fake_label = self.discriminator(tensordict).get("label")
  loss = (
      (fake_label + 1).square().mean() +
      (true_label - 1).square().mean()
  )
  return loss
  \<close>
\<close>

definition LSGAN_forward :: "string \<Rightarrow> tensordict \<Rightarrow> py_error + (loss_term \<times> graph) list" where
  "LSGAN_forward key td =
     then_do (discriminator_forward True {} key td) (\<lambda>td1.
     then_do (td_get td1 ''label'') (\<lambda>true_label.
     then_do (adaptation_module_forward True {} key td1) (\<lambda>td2.
     then_do (discriminator_forward True {} key td2) (\<lambda>td3.
     then_do (td_get td3 ''label'') (\<lambda>fake_label.
     Inr [(LS_loss, fake_label \<union> true_label)])))))"

fun adaptation_loss :: "adaptation_loss_kind \<Rightarrow> string \<Rightarrow> tensordict \<Rightarrow> py_error + (loss_term \<times> graph) list" where
  "adaptation_loss MSE key td = MSE_forward key td"
| "adaptation_loss GAN key td = GAN_forward key td"
| "adaptation_loss LSGAN key td = LSGAN_forward key td"

text \<open>
  \<^verbatim>\<open>
  # PPOAdaptivePolicy.__init__
  self.adapt_opt = torch.optim.Adam(self.adaptation_loss.parameters(), lr=5e-4)
  \<close>
  An optimizer is identified by the networks whose parameters it holds. \<^verbatim>\<open>MSE\<close>
  registers the adaptation module; \<^verbatim>\<open>GAN\<close> and \<^verbatim>\<open>LSGAN\<close> register the adaptation
  module and the discriminator, in this order.
\<close>

fun adapt_opt :: "adaptation_loss_kind \<Rightarrow> network list" where
  "adapt_opt MSE = [AdaptationModule]"
| "adapt_opt GAN = [AdaptationModule, Discriminator]"
| "adapt_opt LSGAN = [AdaptationModule, Discriminator]"

text \<open>
  \<^verbatim>\<open>
  def _train_adaptation(self, tensordict):
      with torch.no_grad():
          tensordict = self.encoder(tensordict)
      info = []
      for epoch in range(4):
          for batch in make_batch(tensordict, self.cfg.num_minibatches):
              loss = self.adaptation_loss(batch)
              self.adapt_opt.zero_grad()
              loss.backward()
              self.adapt_opt.step()
              info.append(loss)
  \<close>
  An optimizer step is recorded as the pair of the networks whose parameters the
  stepping optimizer holds and of the terms of the loss that was back-propagated
  before the step. The argument \<open>k\<close> is the number of minibatches that \<^verbatim>\<open>make_batch\<close>
  yields; a minibatch is a new tensordict with the entries of the batch, so what a
  loss function writes into one minibatch does not reach the next. \<open>collected\<close> is
  the batch as the collector delivered it.
\<close>

definition collected :: tensordict where
  "collected = [''agents.observation_h'' \<mapsto> {}, ''agents.intrinsics'' \<mapsto> {}]"

definition update_on_batch ::
  "adaptation_loss_kind \<Rightarrow> string \<Rightarrow> tensordict
     \<Rightarrow> py_error + (network list \<times> (loss_term \<times> graph) list)" where
  "update_on_batch kind key batch =
     then_do (adaptation_loss kind key batch) (\<lambda>loss. Inr (adapt_opt kind, loss))"

definition train_adaptation ::
  "adaptation_loss_kind \<Rightarrow> string \<Rightarrow> nat \<Rightarrow> tensordict
     \<Rightarrow> py_error + (network list \<times> (loss_term \<times> graph) list) list" where
  "train_adaptation kind key k tensordict =
     then_do (encoder_forward False {} tensordict) (\<lambda>td.
     collect (concat (replicate 4 (replicate k (update_on_batch kind key td)))))"

text \<open>The networks that each optimizer step of a run updates.\<close>

definition optimizer_steps :: "(network list \<times> (loss_term \<times> graph) list) list \<Rightarrow> network list list" where
  "optimizer_steps steps = map fst steps"

text \<open>The terms of the loss of each optimizer step of a run.\<close>

definition step_losses :: "(network list \<times> (loss_term \<times> graph) list) list \<Rightarrow> loss_term list list" where
  "step_losses steps = map (\<lambda>step. map fst (snd step)) steps"

text \<open>The graphs of the generator's loss in the steps of a run.\<close>

definition g_loss_graphs :: "(network list \<times> (loss_term \<times> graph) list) list \<Rightarrow> graph list" where
  "g_loss_graphs steps =
     concat (map (\<lambda>step. map snd (filter (\<lambda>term. fst term = G_loss) (snd step))) steps)"

text \<open>
  Alternation in the words of the specification: the optimizer steps update the
  discriminator alone and the adaptation module alone, in turn.
\<close>

fun other_player :: "network \<Rightarrow> network" where
  "other_player Discriminator = AdaptationModule"
| "other_player n = Discriminator"

fun alternating_from :: "network \<Rightarrow> network list list \<Rightarrow> bool" where
  "alternating_from n [] = True"
| "alternating_from n (nets # rest) = (set nets = {n} \<and> alternating_from (other_player n) rest)"

definition alternating_steps :: "network list list \<Rightarrow> bool" where
  "alternating_steps steps =
     (alternating_from Discriminator steps \<or> alternating_from AdaptationModule steps)"

section \<open>Properties of soft_update and hard_update\<close>

lemma polyak_one_finite: "is_finite t \<Longrightarrow> polyak (Fin 1) p t = p"
  by (cases t; cases p) (simp_all add: polyak_def fsub_def signed_inf_def)

lemma polyak_one_tensor:
  "length param = length target_param \<Longrightarrow> list_all is_finite target_param \<Longrightarrow>
   map2 (polyak (Fin 1)) param target_param = param"
  by (induction param target_param rule: list_induct2) (simp_all add: polyak_one_finite)

lemma soft_update_param:
  "length param = length target_param \<Longrightarrow>
   (case soft_update_value tau param target_param of
      Inl e \<Rightarrow> Inl e
    | Inr v \<Rightarrow> copy_into target_param v) = Inr (map2 (polyak tau) param target_param)"
  by (simp add: soft_update_value_def copy_into_def)

lemma soft_update_result:
  "matching_shapes target source \<Longrightarrow>
   soft_update target source tau =
     Inr (map2 (\<lambda>t p. map2 (polyak tau) p t) target source @ drop (length source) target)"
  by (induction target source tau rule: soft_update.induct)
     (simp_all add: matching_shapes_def soft_update_value_def copy_into_def)

lemma hard_update_result:
  "matching_shapes target source \<Longrightarrow>
   hard_update target source = Inr (take (length target) source @ drop (length source) target)"
  by (induction target source rule: hard_update.induct)
     (simp_all add: matching_shapes_def copy_into_def)

lemma soft_update_one_finite:
  "matching_shapes target source \<Longrightarrow> finite_params target \<Longrightarrow>
   map2 (\<lambda>t p. map2 (polyak (Fin 1)) p t) target source = take (length target) source"
proof (induction target arbitrary: source)
  case Nil
  then show ?case by simp
next
  case (Cons t ts)
  then show ?case
    by (cases source) (simp_all add: matching_shapes_def finite_params_def polyak_one_tensor)
qed

text \<open>
  Claim C4, as the code has it. \<open>soft_update\<close> sets every target parameter that has a
  positionally matching source parameter to \<open>tau * source + (1 - tau) * target\<close>, element
  by element in floating-point arithmetic, and leaves the other target parameters alone;
  with \<open>tau = 1\<close> every matched target parameter whose entries are all finite becomes
  equal to its source parameter.
\<close>

theorem soft_update_interpolates:
  assumes "matching_shapes target source"
  shows "\<exists>r. soft_update target source tau = Inr r \<and> length r = length target
     \<and> (\<forall>i<length target. i < length source \<longrightarrow>
            length (r ! i) = length (target ! i) \<and>
            (\<forall>j<length (target ! i).
               r ! i ! j = fadd (fmul tau (source ! i ! j))
                                (fmul (fsub (Fin 1) tau) (target ! i ! j))))
     \<and> (\<forall>i<length target. length source \<le> i \<longrightarrow> r ! i = target ! i)
     \<and> (tau = Fin 1 \<longrightarrow>
          (\<forall>i<length target. i < length source \<longrightarrow> list_all is_finite (target ! i) \<longrightarrow>
             r ! i = source ! i))"
proof -
  let ?r = "map2 (\<lambda>t p. map2 (polyak tau) p t) target source @ drop (length source) target"
  have shape: "length (source ! i) = length (target ! i)"
    if "i < length target" "i < length source" for i
    using assms that by (auto simp: matching_shapes_def list_all_length)
  have res: "soft_update target source tau = Inr ?r"
    using assms by (rule soft_update_result)
  have len: "length ?r = length target" by simp
  have zipped: "?r ! i = map2 (polyak tau) (source ! i) (target ! i)"
    if "i < length target" "i < length source" for i
    using that by (simp add: nth_append)
  have rest: "?r ! i = target ! i" if "i < length target" "length source \<le> i" for i
    using that by (simp add: nth_append min_def)
  have elem: "?r ! i ! j = fadd (fmul tau (source ! i ! j))
                                (fmul (fsub (Fin 1) tau) (target ! i ! j))"
    if "i < length target" "i < length source" "j < length (target ! i)" for i j
    using that zipped[of i] shape[of i] by (simp add: polyak_def)
  have leni: "length (?r ! i) = length (target ! i)"
    if "i < length target" "i < length source" for i
    using that zipped[of i] shape[of i] by simp
  have one: "?r ! i = source ! i"
    if "tau = Fin 1" "i < length target" "i < length source" "list_all is_finite (target ! i)"
    for i
    using that zipped[of i] shape[of i] by (simp add: polyak_one_tensor)
  from res len leni elem rest one show ?thesis by blast
qed

theorem soft_update_interpolates_witness:
  "matching_shapes [[Fin 1, Fin 2], [Fin 3], [Fin 4]] [[Fin 10, PInf], [Fin 30]]
   \<and> soft_update [[Fin 1, Fin 2], [Fin 3], [Fin 4]] [[Fin 10, PInf], [Fin 30]] (Fin (1/2))
       = Inr [[Fin (11/2), PInf], [Fin (33/2)], [Fin 4]]
   \<and> soft_update [[Fin 1, Fin 2], [Fin 3], [Fin 4]] [[Fin 10, PInf], [Fin 30]] (Fin 1)
       = Inr [[Fin 10, PInf], [Fin 30], [Fin 4]]"
proof -
  have m: "matching_shapes [[Fin 1, Fin 2], [Fin 3], [Fin 4]] [[Fin 10, PInf], [Fin 30]]"
    by (simp add: matching_shapes_def)
  have e: "soft_update [[Fin 1, Fin 2], [Fin 3], [Fin 4]] [[Fin 10, PInf], [Fin 30]] (Fin (1/2))
       = Inr [[Fin (11/2), PInf], [Fin (33/2)], [Fin 4]]"
    "soft_update [[Fin 1, Fin 2], [Fin 3], [Fin 4]] [[Fin 10, PInf], [Fin 30]] (Fin 1)
       = Inr [[Fin 10, PInf], [Fin 30], [Fin 4]]"
    by (simp_all add: soft_update_value_def copy_into_def polyak_def fsub_def signed_inf_def)
  from soft_update_interpolates[OF m, of "Fin 1"] m e show ?thesis by blast
qed

text \<open>
  Claim C4 as stated fails: with \<open>tau = 1\<close> a target entry that is infinite becomes nan
  and not the source entry, because \<open>(1 - 1) * inf\<close> is nan.
\<close>

theorem soft_update_tau_one_counterexample:
  "matching_shapes [[PInf, Fin 2]] [[Fin 10, Fin 20]]
   \<and> soft_update [[PInf, Fin 2]] [[Fin 10, Fin 20]] (Fin 1) = Inr [[NaN, Fin 20]]
   \<and> [[NaN, Fin 20]] \<noteq> [[Fin 10, Fin 20]]"
  by (simp add: matching_shapes_def soft_update_value_def copy_into_def polyak_def fsub_def
        signed_inf_def)

text \<open>
  Claim C10, as the code has it. For modules whose positionally zipped parameters have
  matching shapes and whose target parameters hold finite numbers only,
  \<open>hard_update target source\<close> leaves the target in the same state as
  \<open>soft_update target source 1\<close>.
\<close>

theorem hard_update_eq_soft_update_one:
  assumes "matching_shapes target source" and "finite_params target"
  shows "hard_update target source = soft_update target source (Fin 1)"
  using assms
  by (simp add: hard_update_result soft_update_result soft_update_one_finite)

theorem hard_update_eq_soft_update_one_witness:
  "matching_shapes [[Fin 1, Fin 2], [Fin 3]] [[Fin 10, NaN], [PInf]]
   \<and> finite_params [[Fin 1, Fin 2], [Fin 3]]
   \<and> hard_update [[Fin 1, Fin 2], [Fin 3]] [[Fin 10, NaN], [PInf]]
       = soft_update [[Fin 1, Fin 2], [Fin 3]] [[Fin 10, NaN], [PInf]] (Fin 1)
   \<and> hard_update [[Fin 1, Fin 2], [Fin 3]] [[Fin 10, NaN], [PInf]] = Inr [[Fin 10, NaN], [PInf]]"
proof -
  have m: "matching_shapes [[Fin 1, Fin 2], [Fin 3]] [[Fin 10, NaN], [PInf]]"
    by (simp add: matching_shapes_def)
  have f: "finite_params [[Fin 1, Fin 2], [Fin 3]]"
    by (simp add: finite_params_def)
  have e: "hard_update [[Fin 1, Fin 2], [Fin 3]] [[Fin 10, NaN], [PInf]] = Inr [[Fin 10, NaN], [PInf]]"
    by (simp add: copy_into_def)
  from hard_update_eq_soft_update_one[OF m f] m f e show ?thesis by blast
qed

text \<open>
  Claim C10 as stated fails: where the target holds an infinite entry, \<open>hard_update\<close>
  copies the source entry and \<open>soft_update\<close> with \<open>tau = 1\<close> writes nan.
\<close>

theorem hard_update_soft_update_counterexample:
  "matching_shapes [[PInf, Fin 2]] [[Fin 10, Fin 20]]
   \<and> hard_update [[PInf, Fin 2]] [[Fin 10, Fin 20]] = Inr [[Fin 10, Fin 20]]
   \<and> soft_update [[PInf, Fin 2]] [[Fin 10, Fin 20]] (Fin 1) = Inr [[NaN, Fin 20]]
   \<and> hard_update [[PInf, Fin 2]] [[Fin 10, Fin 20]]
       \<noteq> soft_update [[PInf, Fin 2]] [[Fin 10, Fin 20]] (Fin 1)"
  by (simp add: matching_shapes_def soft_update_value_def copy_into_def polyak_def fsub_def
        signed_inf_def)

section \<open>Properties of MyBuffer.extend\<close>

lemma length_fold_update:
  "length (fold (\<lambda>(i, row) st. st[i := Some row]) zs st) = length st"
  by (induction zs arbitrary: st) (auto split: prod.splits)

lemma extend_Inr:
  assumes "extend b data = Inr (idx, b')"
  shows "data \<noteq> [] \<and> 0 < max_size b
       \<and> idx = map (\<lambda>k. (cursor b + k) mod max_size b) [0..<length data]
       \<and> max_size b' = max_size b
       \<and> length (storage b') = length (storage b)
       \<and> storage_len b' = max (storage_len b) (Max (set idx) + 1)
       \<and> cursor b' = last idx + 1"
  using assms
  by (auto simp: extend_def Let_def storage_set_def length_fold_update split: if_splits)

lemma extend_indices_below:
  assumes "extend b data = Inr (idx, b')"
  shows "idx \<noteq> [] \<and> (\<forall>i\<in>set idx. i < max_size b)"
  using extend_Inr[OF assms] by auto

lemma extend_len_bounded:
  assumes "extend b data = Inr (idx, b')" and "storage_len b \<le> max_size b"
  shows "storage_len b' \<le> max_size b'"
proof -
  from extend_indices_below[OF assms(1)]
  have ne: "set idx \<noteq> {}" and lt: "\<forall>i\<in>set idx. i < max_size b" by auto
  have "Max (set idx) \<in> set idx" using ne by (intro Max_in) auto
  then have "Max (set idx) + 1 \<le> max_size b" using lt by fastforce
  then show ?thesis using extend_Inr[OF assms(1)] assms(2) by simp
qed

lemma extend_cursor:
  assumes "extend b data = Inr (idx, b')"
  shows "(cursor b' + k) mod max_size b = (cursor b + length data + k) mod max_size b"
proof -
  from extend_Inr[OF assms] have ne: "data \<noteq> []"
    and idx: "idx = map (\<lambda>k. (cursor b + k) mod max_size b) [0..<length data]"
    and c: "cursor b' = last idx + 1" by auto
  from ne have "length data = Suc (length data - 1)" by (cases data) auto
  then have "[0..<length data] = [0..<length data - 1] @ [length data - 1]"
    by (metis upt_Suc_append zero_le)
  then have "last idx = (cursor b + (length data - 1)) mod max_size b"
    using idx by simp
  then have "(cursor b' + k) mod max_size b
        = ((cursor b + (length data - 1)) mod max_size b + (1 + k)) mod max_size b"
    using c by (simp add: add.assoc)
  also have "\<dots> = (cursor b + (length data - 1) + (1 + k)) mod max_size b"
    by (rule mod_add_left_eq)
  also have "cursor b + (length data - 1) + (1 + k) = cursor b + length data + k"
    using ne by (cases data) auto
  finally show ?thesis .
qed

lemma extend_all_invariant:
  assumes "extend_all b datas = Inr (idxs, b')"
    and "length (storage b) = max_size b" and "storage_len b \<le> max_size b"
  shows "max_size b' = max_size b \<and> length (storage b') = max_size b
       \<and> storage_len b' \<le> max_size b
       \<and> concat idxs = map (\<lambda>k. (cursor b + k) mod max_size b) [0..<length (concat datas)]"
  using assms
proof (induction datas arbitrary: b idxs)
  case Nil
  then show ?case by simp
next
  case (Cons data rest)
  from Cons.prems(1) obtain idx b1 idxs1 where
    e: "extend b data = Inr (idx, b1)" and
    r: "extend_all b1 rest = Inr (idxs1, b')" and
    i: "idxs = idx # idxs1"
    by (auto split: sum.splits prod.splits)
  note E = extend_Inr[OF e]
  have l1: "storage_len b1 \<le> max_size b1"
    using extend_len_bounded[OF e Cons.prems(3)] .
  have s1: "length (storage b1) = max_size b1" using E Cons.prems(2) by simp
  from Cons.IH[OF r s1 l1] E
  have IH: "max_size b' = max_size b" "length (storage b') = max_size b"
     "storage_len b' \<le> max_size b"
     "concat idxs1 = map (\<lambda>k. (cursor b1 + k) mod max_size b) [0..<length (concat rest)]"
    by simp_all
  have "concat idxs1 = map (\<lambda>k. (cursor b + length data + k) mod max_size b) [0..<length (concat rest)]"
    using IH(4) extend_cursor[OF e] by simp
  also have "\<dots> = map (\<lambda>k. (cursor b + k) mod max_size b) [length data..<length data + length (concat rest)]"
  proof -
    have "[length data..<length data + length (concat rest)]
        = map (\<lambda>k. k + length data) [0..<length (concat rest)]"
      by (simp add: map_add_upt add.commute)
    then show ?thesis by (simp add: comp_def ac_simps)
  qed
  finally have "concat idxs = map (\<lambda>k. (cursor b + k) mod max_size b) ([0..<length data] @ [length data..<length data + length (concat rest)])"
    using i E by simp
  also have "[0..<length data] @ [length data..<length data + length (concat rest)] = [0..<length (concat (data # rest))]"
    using upt_add_eq_append[of 0 "length data" "length (concat rest)"] by simp
  finally show ?case using IH by simp
qed

text \<open>
  Claim C5. After any sequence of \<open>extend\<close> calls on a fresh buffer of capacity \<open>m\<close>
  the number of stored entries and the valid length are at most \<open>m\<close>, and the
  \<open>k\<close>-th entry inserted overall is written at index \<open>k mod m\<close>. With capacity 4
  the fifth insert therefore goes to index 0 and replaces the oldest entry.
\<close>

theorem MyBuffer_extend_bounded_and_wraps:
  assumes "extend_all (MyBuffer_init m) datas = Inr (idxs, b)"
  shows "max_size b = m \<and> length (storage b) = m \<and> stored b \<le> m \<and> storage_len b \<le> m
       \<and> concat idxs = map (\<lambda>k. k mod m) [0..<length (concat datas)]"
proof -
  have "stored b \<le> length (storage b)" by (simp add: stored_def)
  then show ?thesis
    using extend_all_invariant[OF assms] by (simp add: MyBuffer_init_def)
qed


theorem MyBuffer_extend_bounded_and_wraps_witness:
  "extend_all (MyBuffer_init 4) [[[1::int]], [[2]], [[3]], [[4]], [[99]]]
      = Inr ([[0], [1], [2], [3], [0]],
             \<lparr>max_size = 4, storage = [Some [99], Some [2], Some [3], Some [4]],
              storage_len = 4, shape1 = Some 1, cursor = 1\<rparr>)
   \<and> stored \<lparr>max_size = 4, storage = [Some [99::int], Some [2], Some [3], Some [4]],
              storage_len = 4, shape1 = Some 1, cursor = 1\<rparr> \<le> 4
   \<and> concat [[0], [1], [2], [3], [0]]
       = map (\<lambda>k. k mod 4) [0..<length (concat [[[1::int]], [[2]], [[3]], [[4]], [[99]]])]"
proof -
  have e: "extend_all (MyBuffer_init 4) [[[1::int]], [[2]], [[3]], [[4]], [[99]]]
      = Inr ([[0], [1], [2], [3], [0]],
             \<lparr>max_size = 4, storage = [Some [99], Some [2], Some [3], Some [4]],
              storage_len = 4, shape1 = Some 1, cursor = 1\<rparr>)"
    by code_simp
  show ?thesis
    using e MyBuffer_extend_bounded_and_wraps[OF e] by blast
qed

section \<open>Properties of the minibatch generators\<close>

lemma concat_rows:
  "length xs = k * c \<Longrightarrow> concat (map (\<lambda>i. take c (drop (i * c) xs)) [0..<k]) = xs"
proof (induction k arbitrary: xs)
  case 0
  then show ?case by simp
next
  case (Suc k)
  have "[0..<Suc k] = 0 # map Suc [0..<k]"
    by (simp add: upt_conv_Cons map_Suc_upt del: upt_Suc)
  then have "concat (map (\<lambda>i. take c (drop (i * c) xs)) [0..<Suc k])
      = take c xs @ concat (map (\<lambda>i. take c (drop (i * c) (drop c xs))) [0..<k])"
    by (simp add: comp_def add.commute del: upt_Suc)
  moreover have "length (drop c xs) = k * c" using Suc.prems by simp
  ultimately show ?case using Suc.IH[of "drop c xs"] by simp
qed

lemma distinct_concat_disjoint:
  "distinct (concat xss) \<Longrightarrow> i < j \<Longrightarrow> j < length xss \<Longrightarrow> set (xss ! i) \<inter> set (xss ! j) = {}"
proof (induction xss arbitrary: i j)
  case Nil
  then show ?case by simp
next
  case (Cons xs xss)
  show ?case
  proof (cases i)
    case 0
    with Cons.prems obtain j' where j: "j = Suc j'" "j' < length xss"
      by (cases j) auto
    then have "xss ! j' \<in> set xss" by simp
    then have "set (xss ! j') \<subseteq> \<Union> (set ` set xss)" by blast
    moreover have "set xs \<inter> \<Union> (set ` set xss) = {}" using Cons.prems(1) by simp
    ultimately have "set xs \<inter> set (xss ! j') = {}" by blast
    then show ?thesis using 0 j by simp
  next
    case (Suc i')
    with Cons.prems obtain j' where j: "j = Suc j'" "j' < length xss" "i' < j'"
      by (cases j) auto
    with Cons.IH[of i' j'] Cons.prems(1) Suc show ?thesis by simp
  qed
qed

lemma make_batch_rows:
  assumes "0 < k" and "length perm = (n div k) * k"
  shows "make_batch n k perm = Inr (map (\<lambda>i. take (n div k) (drop (i * (n div k)) perm)) [0..<k])"
  using assms by (simp add: make_batch_def reshape_rows_def Let_def)

text \<open>
  Claim C7. One pass of the minibatch generator over a flattened batch of size \<open>n\<close>
  yields \<open>num_minibatches\<close> minibatches of \<open>n div num_minibatches\<close> indices each; the
  minibatches are pairwise disjoint and together hold every index below
  \<open>(n div num_minibatches) * num_minibatches\<close> exactly once, which is every transition
  when \<open>num_minibatches\<close> divides \<open>n\<close>; an index at or beyond that bound is never
  selected. \<open>make_dataset_naive\<close> without windows does the same.
\<close>

theorem make_batch_partition:
  assumes "0 < k" and "is_randperm ((n div k) * k) perm"
  shows "\<exists>bs. make_batch n k perm = Inr bs \<and> make_dataset_naive (1, n) k 1 perm = Inr bs
     \<and> length bs = k \<and> (\<forall>b\<in>set bs. length b = n div k)
     \<and> concat bs = perm \<and> distinct (concat bs)
     \<and> set (concat bs) = {0..<(n div k) * k}
     \<and> (\<forall>i<k. \<forall>j<k. i \<noteq> j \<longrightarrow> set (bs ! i) \<inter> set (bs ! j) = {})
     \<and> (k dvd n \<longrightarrow> set (concat bs) = {0..<n})
     \<and> (\<forall>x\<in>set (concat bs). x < (n div k) * k)"
proof -
  let ?c = "n div k"
  let ?bs = "map (\<lambda>i. take ?c (drop (i * ?c) perm)) [0..<k]"
  from assms(2) have m: "mset perm = mset [0..<?c * k]" by (simp add: is_randperm_def)
  then have len: "length perm = ?c * k" by (metis size_mset length_upt diff_zero)
  have res: "make_batch n k perm = Inr ?bs" using make_batch_rows[OF assms(1) len] .
  have naive: "make_dataset_naive (1, n) k 1 perm = make_batch n k perm"
    by (simp add: make_dataset_naive_def)
  have cc: "concat ?bs = perm" using len by (intro concat_rows) (simp add: mult.commute)
  have set: "set perm = {0..<?c * k}" using m by (metis set_mset_mset set_upt)
  have dist: "distinct perm" using m by (metis mset_eq_imp_distinct_iff distinct_upt)
  have lens: "\<forall>b\<in>set ?bs. length b = ?c"
  proof
    fix b assume "b \<in> set ?bs"
    then obtain i where i: "i < k" "b = take ?c (drop (i * ?c) perm)" by auto
    have "i * ?c + ?c \<le> k * ?c" using i(1)
      by (metis Suc_leI mult_Suc mult_le_mono1 add.commute)
    then show "length b = ?c" using i(2) len by (simp add: mult.commute)
  qed
  have disj: "set (?bs ! i) \<inter> set (?bs ! j) = {}" if "i < k" "j < k" "i \<noteq> j" for i j
  proof (cases "i < j")
    case True
    then show ?thesis using distinct_concat_disjoint[of ?bs i j] cc dist that by simp
  next
    case False
    then have "j < i" using that by simp
    then show ?thesis using distinct_concat_disjoint[of ?bs j i] cc dist that by auto
  qed
  have F2: "make_dataset_naive (1, n) k 1 perm = Inr ?bs" using naive res by simp
  have F3: "length ?bs = k" by simp
  have F6: "distinct (concat ?bs)" using cc dist by simp
  have F7: "set (concat ?bs) = {0..<?c * k}" using cc set by simp
  have F8: "\<forall>i<k. \<forall>j<k. i \<noteq> j \<longrightarrow> set (?bs ! i) \<inter> set (?bs ! j) = {}"
    using disj by blast
  have F9: "k dvd n \<longrightarrow> set (concat ?bs) = {0..<n}" using F7 by simp
  have F10: "\<forall>x\<in>set (concat ?bs). x < ?c * k" using F7 by simp
  from res F2 F3 lens cc F6 F7 F8 F9 F10 show ?thesis by blast
qed


theorem make_batch_partition_witness:
  "0 < (3::nat) \<and> is_randperm ((7 div 3) * 3) [3, 0, 5, 1, 4, 2]
   \<and> make_batch 7 3 [3, 0, 5, 1, 4, 2] = Inr [[3, 0], [5, 1], [4, 2]]
   \<and> make_dataset_naive (1, 7) 3 1 [3, 0, 5, 1, 4, 2] = Inr [[3, 0], [5, 1], [4, 2]]
   \<and> 6 \<notin> set (concat [[3, 0], [5, 1], [4, 2::nat]])"
proof -
  have k: "0 < (3::nat)" by simp
  have p: "is_randperm ((7 div 3) * 3) [3, 0, 5, 1, 4, 2]"
    by code_simp
  have e: "make_batch 7 3 [3, 0, 5, 1, 4, 2] = Inr [[3, 0], [5, 1], [4, 2]]"
    by code_simp
  from make_batch_partition[OF k p] e k p show ?thesis by auto
qed

section \<open>Properties of MyBuffer.sample\<close>

lemma collect_all_Inr:
  "\<forall>x\<in>set xs. f x = Inr (g x) \<Longrightarrow> collect (map f xs) = Inr (map g xs)"
  by (induction xs) simp_all

lemma collect_Inr_length:
  "collect rs = Inr xs \<Longrightarrow> length xs = length rs"
  by (induction rs arbitrary: xs rule: collect.induct) (auto split: sum.splits)

lemma sample_seq_len_too_long:
  "int (storage_len b) < seq_len \<Longrightarrow> sample b batch_size seq_len rng = Inl ValueError"
  by (simp add: sample_def)

lemma index_select_contiguous:
  assumes "t + n \<le> length xs"
  shows "index_select xs (map (\<lambda>k. int t + k) (map int [0..<n])) = Inr (take n (drop t xs))"
proof -
  have "map (\<lambda>i. xs ! nat (if i < 0 then i + int (length xs) else i))
            (map (\<lambda>k. int t + k) (map int [0..<n])) = map (\<lambda>k. xs ! (t + k)) [0..<n]"
    by (simp add: nat_add_distrib comp_def flip: of_nat_add)
  also have "\<dots> = take n (drop t xs)"
    using assms by (intro nth_equalityI) simp_all
  finally show ?thesis
    using assms by (auto simp: index_select_def list_all_iff)
qed

lemma sample_sub_traj_contiguous:
  assumes "0 \<le> seq_len" and "seq_len < int (length traj)"
  shows "nat (int raw mod (int (length traj) - seq_len)) + nat seq_len \<le> length traj
       \<and> sample_sub_traj traj seq_len raw
           = Inr (take (nat seq_len) (drop (nat (int raw mod (int (length traj) - seq_len))) traj))"
proof -
  let ?h = "int (length traj) - seq_len"
  let ?t = "nat (int raw mod ?h)"
  have h: "0 < ?h" using assms by simp
  then have t: "0 \<le> int raw mod ?h" "int raw mod ?h < ?h" by simp_all
  then have le: "?t + nat seq_len \<le> length traj" using assms by linarith
  have r: "randint 0 ?h raw = Inr (int ?t)" using h t by (simp add: randint_def)
  have a: "arange seq_len = Inr (map int [0..<nat seq_len])" using assms by (simp add: arange_def)
  have "sample_sub_traj traj seq_len raw = Inr (take (nat seq_len) (drop ?t traj))"
    using index_select_contiguous[OF le] by (simp add: sample_sub_traj_def r a)
  with le show ?thesis by blast
qed

lemma storage_column_length:
  "storage_len b \<le> length (storage b) \<Longrightarrow> length (storage_column b c) = storage_len b"
  by (simp add: storage_column_def)

lemma sample_columns:
  "0 < n \<Longrightarrow> collect (map (\<lambda>i. randint 0 (int n) (rng i)) [0..<num])
      = Inr (map (\<lambda>i. int (rng i) mod int n) [0..<num])"
  by (intro collect_all_Inr) (simp add: randint_def)

lemma sample_shorter_succeeds:
  assumes "shape1 b = Some n" and "0 < n" and "storage_len b \<le> length (storage b)"
    and "0 \<le> seq_len" and "seq_len < int (storage_len b)"
  shows "\<exists>trajs. sample b batch_size seq_len rng = Inr trajs
     \<and> length trajs = prod_list batch_size
     \<and> (\<forall>tr\<in>set trajs. length tr = nat seq_len
           \<and> (\<exists>c t. t + nat seq_len \<le> storage_len b
                  \<and> tr = take (nat seq_len) (drop t (storage_column b c))))"
proof -
  let ?num = "prod_list batch_size"
  let ?cols = "map (\<lambda>i. int (rng i) mod int n) [0..<?num]"
  let ?t = "\<lambda>i. nat (int (rng (?num + i)) mod (int (storage_len b) - seq_len))"
  let ?g = "\<lambda>(i, c). take (nat seq_len) (drop (?t i) (storage_column b (nat c)))"
  let ?f = "\<lambda>(i, c). sample_sub_traj (storage_column b (nat c)) seq_len (rng (?num + i))"
  note L = storage_column_length[OF assms(3)]
  have sub: "?t i + nat seq_len \<le> storage_len b \<and> ?f (i, c) = Inr (?g (i, c))" for i c
    using sample_sub_traj_contiguous[of seq_len "storage_column b (nat c)" "rng (?num + i)"]
      assms(4,5) by (simp add: L)
  then have "\<forall>x\<in>set (zip [0..<?num] ?cols). ?f x = Inr (?g x)" by auto
  then have "collect (map ?f (zip [0..<?num] ?cols)) = Inr (map ?g (zip [0..<?num] ?cols))"
    by (rule collect_all_Inr)
  then have res: "sample b batch_size seq_len rng = Inr (map ?g (zip [0..<?num] ?cols))"
    using assms(1,5) sample_columns[OF assms(2), of rng ?num]
    by (simp add: sample_def Let_def)
  have len: "length (map ?g (zip [0..<?num] ?cols)) = ?num" by simp
  have each: "length tr = nat seq_len
           \<and> (\<exists>c t. t + nat seq_len \<le> storage_len b
                  \<and> tr = take (nat seq_len) (drop t (storage_column b c)))"
    if "tr \<in> set (map ?g (zip [0..<?num] ?cols))" for tr
  proof -
    from that obtain i c where tr: "tr = ?g (i, c)" by auto
    have le: "?t i + nat seq_len \<le> storage_len b" using sub[of i c] by simp
    then have "length tr = nat seq_len" using tr by (simp add: L)
    with le tr show ?thesis by auto
  qed
  from res len each show ?thesis by blast
qed

lemma sample_sub_traj_full_length_fails:
  "sample_sub_traj traj (int (length traj)) raw = Inl RuntimeError"
  by (simp add: sample_sub_traj_def randint_def)

lemma sample_full_length_fails:
  assumes "shape1 b = Some n" and "0 < n" and "storage_len b \<le> length (storage b)"
    and "0 < prod_list batch_size"
  shows "sample b batch_size (int (storage_len b)) rng = Inl RuntimeError"
proof -
  let ?num = "prod_list batch_size"
  from assms(4) obtain m where m: "?num = Suc m" by (cases ?num) auto
  have up: "[0..<Suc m] = 0 # map Suc [0..<m]"
    by (simp add: upt_conv_Cons map_Suc_upt del: upt_Suc)
  have "sample_sub_traj (storage_column b c) (int (storage_len b)) raw = Inl RuntimeError" for c raw
    using sample_sub_traj_full_length_fails[of "storage_column b c" raw]
    by (simp add: storage_column_length[OF assms(3)])
  then show ?thesis
    using assms(1) sample_columns[OF assms(2), of rng ?num]
    by (simp add: sample_def Let_def m up del: upt_Suc)
qed

text \<open>
  Claim C6. \<open>sample\<close> raises ValueError when \<open>seq_len\<close> exceeds the valid length
  (\<open>sample_seq_len_too_long\<close>) and returns sub-trajectories of \<open>seq_len\<close> contiguous
  steps when \<open>seq_len\<close> is below it (\<open>sample_shorter_succeeds\<close>). At \<open>seq_len\<close> equal
  to the valid length the guard lets the call through, and the exclusive upper bound
  \<^verbatim>\<open>traj.shape[0] - seq_len\<close> of \<^verbatim>\<open>torch.randint\<close> is zero: a buffer of capacity 4 that
  holds four entries answers \<^verbatim>\<open>sample(1, seq_len=4)\<close> with a RuntimeError, whatever the
  generator delivers.
\<close>

theorem MyBuffer_sample_full_length_fails:
  "extend (MyBuffer_init 4) [[1], [2], [3], [4::int]]
     = Inr ([0, 1, 2, 3],
            \<lparr>max_size = 4, storage = [Some [1], Some [2], Some [3], Some [4]],
             storage_len = 4, shape1 = Some 1, cursor = 4\<rparr>)
   \<and> sample \<lparr>max_size = 4, storage = [Some [1], Some [2], Some [3], Some [4::int]],
             storage_len = 4, shape1 = Some 1, cursor = 4\<rparr> [1] 4 rng = Inl RuntimeError"
proof -
  have "extend (MyBuffer_init 4) [[1], [2], [3], [4::int]]
     = Inr ([0, 1, 2, 3],
            \<lparr>max_size = 4, storage = [Some [1], Some [2], Some [3], Some [4]],
             storage_len = 4, shape1 = Some 1, cursor = 4\<rparr>)"
    by code_simp
  moreover have "sample \<lparr>max_size = 4, storage = [Some [1], Some [2], Some [3], Some [4::int]],
             storage_len = 4, shape1 = Some 1, cursor = 4\<rparr> [1] 4 rng = Inl RuntimeError"
    by (simp add: sample_def randint_def storage_column_def sample_sub_traj_def)
  ultimately show ?thesis by blast
qed

section \<open>Properties of the PPO losses\<close>

lemma tensor_mean_sum_nth:
  "tensor_mean xs = (\<Sum>i<length xs. xs ! i) / real (length xs)"
  by (simp add: tensor_mean_def sum_list_sum_nth atLeast0LessThan)

lemma tensor_mean_scaled:
  "tensor_mean (map (\<lambda>x. x * c) xs) = tensor_mean xs * c"
  by (simp add: tensor_mean_def sum_list_mult_const)

lemma PPOPolicy_policy_loss_spec:
  assumes "length sample_log_prob = length log_probs" and "length adv = length log_probs"
  shows "PPOPolicy_policy_loss eps d log_probs sample_log_prob adv
       = Inr (spec_policy_loss eps d log_probs sample_log_prob adv)"
proof -
  let ?ratio = "map2 (\<lambda>l s. exp (l - s)) log_probs sample_log_prob"
  let ?surr = "map2 min (map2 (*) adv ?ratio)
                 (map2 (*) adv (map (\<lambda>r. clamp r (1 - eps) (1 + eps)) ?ratio))"
  have len: "length ?surr = length adv" using assms by simp
  have "(\<Sum>i<length ?surr. ?surr ! i)
      = (\<Sum>i<length adv.
           min (exp (log_probs ! i - sample_log_prob ! i) * adv ! i)
               (clamp (exp (log_probs ! i - sample_log_prob ! i)) (1 - eps) (1 + eps) * adv ! i))"
    unfolding len using assms by (intro sum.cong) (simp_all add: mult.commute)
  then have "tensor_mean ?surr * real d = - spec_policy_loss eps d log_probs sample_log_prob adv"
    unfolding tensor_mean_sum_nth len by (simp add: spec_policy_loss_def)
  then show ?thesis
    using assms by (simp add: PPOPolicy_policy_loss_def Let_def)
qed

lemma PPOAdaptivePolicy_policy_loss_eq:
  "PPOAdaptivePolicy_policy_loss eps d log_probs sample_log_prob adv
     = PPOPolicy_policy_loss eps d log_probs sample_log_prob adv"
  by (simp add: PPOAdaptivePolicy_policy_loss_def PPOPolicy_policy_loss_def)

lemma MAPPOPolicy_policy_loss_spec:
  assumes "length log_probs_old = length log_probs" and "length advantages = length log_probs"
    and "length dist_entropy = length log_probs"
  shows "MAPPOPolicy_policy_loss eps d log_probs log_probs_old advantages dist_entropy
       = Inr (spec_policy_loss eps d log_probs log_probs_old advantages)"
proof -
  let ?ratio = "map2 (\<lambda>l s. exp (l - s)) log_probs log_probs_old"
  let ?surr = "map2 min (map2 (*) ?ratio advantages)
                 (map2 (*) (map (\<lambda>r. clamp r (1 - eps) (1 + eps)) ?ratio) advantages)"
  have len: "length ?surr = length advantages" using assms by simp
  have "(\<Sum>i<length ?surr. ?surr ! i)
      = (\<Sum>i<length advantages.
           min (exp (log_probs ! i - log_probs_old ! i) * advantages ! i)
               (clamp (exp (log_probs ! i - log_probs_old ! i)) (1 - eps) (1 + eps) * advantages ! i))"
    unfolding len using assms by (intro sum.cong) simp_all
  then have "tensor_mean ?surr * real d = - spec_policy_loss eps d log_probs log_probs_old advantages"
    unfolding tensor_mean_sum_nth len by (simp add: spec_policy_loss_def)
  then have "- tensor_mean (map (\<lambda>x. x * real d) ?surr)
      = spec_policy_loss eps d log_probs log_probs_old advantages"
    unfolding tensor_mean_scaled by simp
  then show ?thesis
    using assms by (simp add: MAPPOPolicy_policy_loss_def Let_def)
qed

text \<open>
  Claim C1. For every minibatch the policy loss of \<open>PPOPolicy._update\<close>, of
  \<open>PPOAdaptivePolicy._update\<close> and of \<open>MAPPOPolicy.update_actor\<close> is the negated mean of
  the clipped surrogate, scaled by the action dimension, with
  \<open>ratio = exp (log_prob - log_prob_at_collection)\<close>.
\<close>

theorem policy_loss_is_clipped_surrogate:
  assumes "length log_prob_old = length log_prob" and "length adv = length log_prob"
    and "length entropy = length log_prob"
  shows "PPOPolicy_policy_loss eps d log_prob log_prob_old adv
           = Inr (spec_policy_loss eps d log_prob log_prob_old adv)
       \<and> PPOAdaptivePolicy_policy_loss eps d log_prob log_prob_old adv
           = Inr (spec_policy_loss eps d log_prob log_prob_old adv)
       \<and> MAPPOPolicy_policy_loss eps d log_prob log_prob_old adv entropy
           = Inr (spec_policy_loss eps d log_prob log_prob_old adv)"
  using assms
  by (simp add: PPOPolicy_policy_loss_spec PPOAdaptivePolicy_policy_loss_eq
        MAPPOPolicy_policy_loss_spec)


theorem policy_loss_is_clipped_surrogate_witness:
  "length [0, 0::real] = length [ln 2, 0::real] \<and> length [1, -3::real] = length [ln 2, 0::real]
   \<and> PPOPolicy_policy_loss (1/10) 2 [ln 2, 0] [0, 0] [1, -3] = Inr (19/10)
   \<and> PPOAdaptivePolicy_policy_loss (1/10) 2 [ln 2, 0] [0, 0] [1, -3] = Inr (19/10)
   \<and> MAPPOPolicy_policy_loss (1/10) 2 [ln 2, 0] [0, 0] [1, -3] [0, 0] = Inr (19/10)"
proof -
  have s: "spec_policy_loss (1/10) 2 [ln 2, 0] [0, 0] [1, -3] = 19/10"
    by (simp add: spec_policy_loss_def clamp_def lessThan_Suc)
  show ?thesis
    using policy_loss_is_clipped_surrogate
            [of "[0, 0]" "[ln 2, 0]" "[1, -3]" "[0, 0]" "1/10" 2] s
    by simp
qed




lemma clipped_values_length:
  "length values = length b_values \<Longrightarrow>
   length (map2 (+) b_values (map (\<lambda>d. clamp d (- eps) eps) (map2 (-) values b_values)))
     = length b_values"
  by simp



lemma outer_product_sum:
  "sum_list (concat (map (\<lambda>row. map (\<lambda>c. hd row * c) m) (map (\<lambda>l. [l]) ls)))
     = sum_list ls * sum_list (m::real list)"
  by (induction ls) (simp_all add: sum_list_const_mult distrib_right)

lemma outer_product_length:
  "length (concat (map (\<lambda>row. map (\<lambda>c. hd row * c) m) (map (\<lambda>l. [l]) ls)))
     = length ls * length m"
  by (induction ls) simp_all

lemma broadcast_mul_single_agent:
  assumes "length m = length ls"
  shows "broadcast_mul 1 (map (\<lambda>l. [l]) ls) m
       = Inr (map (\<lambda>row. map (\<lambda>c. hd row * c) m) (map (\<lambda>l. [l]) ls))"
proof (cases "length m = 1")
  case True
  then obtain c where m: "m = [c]" by (cases m) auto
  then show ?thesis by (simp add: broadcast_mul_def)
next
  case False
  then show ?thesis by (simp add: broadcast_mul_def)
qed

lemma PPOPolicy_value_loss_single_agent:
  assumes "length vs = length rs" and "length is_init = length rs"
  shows "PPOPolicy_value_loss 1 (map (\<lambda>v. [v]) vs) (map (\<lambda>r. [r]) rs) is_init
     = Inr (((\<Sum>i<length rs. (rs ! i - vs ! i)\<^sup>2) / real (length rs))
            * ((\<Sum>j<length rs. of_bool (\<not> is_init ! j)) / real (length rs)))"
proof -
  let ?ls = "map2 MSELoss rs vs"
  let ?m = "map (\<lambda>init. of_bool (\<not> init)) is_init :: real list"
  let ?masked = "map (\<lambda>row. map (\<lambda>c. hd row * c) ?m) (map (\<lambda>l. [l]) ?ls)"
  have vl: "map2 (map2 MSELoss) (map (\<lambda>r. [r]) rs) (map (\<lambda>v. [v]) vs) = map (\<lambda>l. [l]) ?ls"
    using assms(1)[symmetric] by (induction rs vs rule: list_induct2) simp_all
  have lm: "length ?m = length ?ls" using assms by simp
  have shapes: "list_all (\<lambda>row. length row = 1) (map (\<lambda>v. [v]) vs)"
    "list_all (\<lambda>row. length row = 1) (map (\<lambda>r. [r]) rs)"
    by (simp_all add: list_all_iff)
  have res: "PPOPolicy_value_loss 1 (map (\<lambda>v. [v]) vs) (map (\<lambda>r. [r]) rs) is_init
      = Inr (tensor_mean (concat ?masked))"
    unfolding PPOPolicy_value_loss_def Let_def vl broadcast_mul_single_agent[OF lm]
    using assms shapes by simp
  have sl: "sum_list ?ls = (\<Sum>i<length rs. (rs ! i - vs ! i)\<^sup>2)"
  proof -
    have "sum_list ?ls = (\<Sum>i<length ?ls. ?ls ! i)"
      by (simp add: sum_list_sum_nth atLeast0LessThan)
    also have "\<dots> = (\<Sum>i<length rs. (rs ! i - vs ! i)\<^sup>2)"
      using assms by (intro sum.cong) (simp_all add: MSELoss_def)
    finally show ?thesis .
  qed
  have sm: "sum_list ?m = (\<Sum>j<length rs. of_bool (\<not> is_init ! j))"
  proof -
    have "sum_list ?m = (\<Sum>j<length ?m. ?m ! j)"
      by (simp add: sum_list_sum_nth atLeast0LessThan)
    also have "\<dots> = (\<Sum>j<length rs. of_bool (\<not> is_init ! j))"
      using assms by (intro sum.cong) simp_all
    finally show ?thesis .
  qed
  have "tensor_mean (concat ?masked)
      = (sum_list ?ls * sum_list ?m) / (real (length rs) * real (length rs))"
    unfolding tensor_mean_def outer_product_sum outer_product_length using assms by simp
  then show ?thesis unfolding res sl sm by simp
qed

lemma PPOPolicy_value_loss_outer_product:
  "PPOPolicy_value_loss 1 [[1], [3]] [[0], [0]] [True, False] = Inr (5/2)"
  using PPOPolicy_value_loss_single_agent[of "[1, 3]" "[0, 0]" "[True, False]"]
  by (simp add: lessThan_Suc)




section \<open>Properties of the critic target\<close>

lemma fold_min_Min: "fold min rest (q::real) = Min (set (q # rest))"
proof (induction rest arbitrary: q)
  case Nil
  then show ?case by simp
next
  case (Cons x rest)
  have "fold min (x # rest) q = Min (set (min x q # rest))" using Cons.IH by simp
  also have "\<dots> = Min (insert (min x q) (set rest))" by simp
  also have "\<dots> = Min (set (q # x # rest))"
  proof (cases "set rest = {}")
    case True
    then show ?thesis by (simp add: min.commute)
  next
    case False
    then show ?thesis by (simp add: min.assoc min.left_commute min.commute)
  qed
  finally show ?case .
qed

lemma min_last_dim_Min: "qs \<noteq> [] \<Longrightarrow> min_last_dim qs = Inr (Min (set qs))"
  by (cases qs) (simp_all add: min_last_dim_def fold_min_Min del: set_simps)

text \<open>
  Claim C9. With an ensemble of at least two target critics, the target of the critic
  update is \<open>reward + gamma * (1 - done) * (min\<^sub>i Q\<^sub>i(next_state, next_action) -
  alpha * next_log_prob)\<close> with \<open>alpha = exp log_alpha\<close>; the minimum is a lower bound
  of the value of every critic of the ensemble.
\<close>

theorem target_q_uses_ensemble_minimum:
  assumes "2 \<le> length critic_target"
  shows "target_q gamma log_alpha critic_target reward next_done next_state next_act next_logp
       = Inr (reward + gamma * (1 - of_bool next_done)
                * (Min ((\<lambda>Q. Q (next_state, next_act)) ` set critic_target)
                   - exp log_alpha * next_logp))
     \<and> (\<forall>Q\<in>set critic_target.
           Min ((\<lambda>Q. Q (next_state, next_act)) ` set critic_target) \<le> Q (next_state, next_act))"
proof -
  let ?qs = "Critic_forward critic_target next_state next_act"
  from assms have ne: "?qs \<noteq> []" by (auto simp: Critic_forward_def)
  have s: "set ?qs = (\<lambda>Q. Q (next_state, next_act)) ` set critic_target"
    by (simp add: Critic_forward_def)
  have "min_last_dim ?qs = Inr (Min ((\<lambda>Q. Q (next_state, next_act)) ` set critic_target))"
    using min_last_dim_Min[OF ne] s by simp
  then show ?thesis
    by (simp add: target_q_def Let_def)
qed

theorem target_q_uses_ensemble_minimum_witness:
  "2 \<le> length [\<lambda>(s::real, a::real). s + a, \<lambda>(s, a). s - a]
   \<and> target_q (1/2) 0 [\<lambda>(s::real, a::real). s + a, \<lambda>(s, a). s - a] 1 False 3 1 1 = Inr (3/2)"
  using target_q_uses_ensemble_minimum
          [of "[\<lambda>(s::real, a::real). s + a, \<lambda>(s, a). s - a]" "1/2" 0 1 False 3 1 1]
  by simp

section \<open>Properties of the advantage estimator\<close>

lemma gae_backward_length: "length (gae_backward gamma lmbda steps) = length steps"
  by (induction steps rule: gae_backward.induct) (simp_all add: Let_def)

lemma gae_backward_nth:
  "t < length steps \<Longrightarrow>
   gae_backward gamma lmbda steps ! t =
     (case steps ! t of (r, term, done, v, next_v) \<Rightarrow>
        gae_advantage gamma lmbda r term done v next_v
          (if Suc t < length steps then gae_backward gamma lmbda steps ! Suc t else 0))"
proof (induction steps arbitrary: t)
  case Nil
  then show ?case by simp
next
  case (Cons s rest)
  obtain r "term" d v next_v where s: "s = (r, term, d, v, next_v)" by (cases s) auto
  show ?case
  proof (cases t)
    case 0
    have "(case gae_backward gamma lmbda rest of [] \<Rightarrow> 0 | a # _ \<Rightarrow> a)
        = (if rest = [] then 0 else gae_backward gamma lmbda rest ! 0)"
      using gae_backward_length[of gamma lmbda rest]
      by (cases "gae_backward gamma lmbda rest") auto
    then show ?thesis using 0 s by (simp add: Let_def)
  next
    case (Suc t')
    then have "t' < length rest" using Cons.prems by simp
    from Cons.IH[OF this] show ?thesis using Suc s by (simp add: Let_def)
  qed
qed

lemma gae_advantage_done:
  "gae_advantage gamma lmbda r term True v next_v next_adv = r - v"
  by (simp add: gae_advantage_def)

lemma gae_advantage_term:
  "gae_advantage gamma lmbda r True False v next_v next_adv = r + gamma * next_v - v"
  by (simp add: gae_advantage_def)

lemma gae_advantage_running:
  "gae_advantage gamma lmbda r False False v next_v next_adv
     = r + gamma * next_v - v + gamma * lmbda * next_adv"
  by (simp add: gae_advantage_def)

lemma gae_scenario_1:
  "GAE 1 1 [1, 1, 1] [False, False, False] [False, False, False] [0, 0, 0] [0, 0, 0]
     = Inr ([3, 2, 1], [3, 2, 1])"
  by (simp add: GAE_def gae_advantage_def Let_def)

lemma gae_scenario_2: "GAE gamma lmbda [r] [term] [True] [v] [next_v] = Inr ([r - v], [r])"
  by (simp add: GAE_def gae_advantage_def Let_def)

text \<open>
  Claim C3, as the code has it. \<open>MAPPOPolicy.train_op\<close> and
  \<open>PPOAdaptivePolicy._train_policy\<close> hand their estimator the done flags only: whatever
  the estimator is, its result does not change with the termination flags of the
  batch. \<open>PPOPolicy._compute_advantage\<close> hands the termination flags and the done
  flags to its estimator as two inputs. At a step \<open>t\<close> with \<open>done[t]\<close> set, the advantage is \<open>r[t] - v[t]\<close> whatever
  \<open>term[t]\<close>, \<open>v[t+1]\<close> and \<open>adv[t+1]\<close> are. At a step that is not done, a set
  \<open>term[t]\<close> keeps the bootstrap value \<open>gamma * v[t+1]\<close> and drops \<open>adv[t+1]\<close>, and
  otherwise \<open>adv[t+1]\<close> is propagated with weight \<open>gamma * lmbda\<close>.
\<close>

theorem gae_done_stops_propagation:
  assumes "length terms = length rewards" and "length dones = length rewards"
    and "length vals = length rewards" and "length next_values = length rewards"
    and "t < length rewards"
  shows "PPOPolicy_compute_advantage reward terms dones vals next_values
       = GAE (99/100) (95/100) (map sum_list reward) terms dones vals next_values
     \<and> MAPPOPolicy_train_op_gae compute_gae denormalize gae_gamma gae_lambda
           (Rollout rs ts ds ads vs) next_value
       = MAPPOPolicy_train_op_gae compute_gae denormalize gae_gamma gae_lambda
           (Rollout rs ts' ds ads vs) next_value
     \<and> PPOAdaptivePolicy_train_policy_gae compute_gae' denormalize
           (Rollout rs ts ds ads vs) next_value
       = PPOAdaptivePolicy_train_policy_gae compute_gae' denormalize
           (Rollout rs ts' ds ads vs) next_value
     \<and> (\<exists>adv ret. GAE gamma lmbda rewards terms dones vals next_values = Inr (adv, ret)
     \<and> length adv = length rewards \<and> length ret = length rewards
     \<and> ret ! t = adv ! t + vals ! t
     \<and> (dones ! t \<longrightarrow> adv ! t = rewards ! t - vals ! t)
     \<and> (\<not> dones ! t \<and> terms ! t \<longrightarrow>
           adv ! t = rewards ! t + gamma * next_values ! t - vals ! t)
     \<and> (\<not> dones ! t \<and> \<not> terms ! t \<longrightarrow>
           adv ! t = rewards ! t + gamma * next_values ! t - vals ! t
                     + gamma * lmbda * (if Suc t < length rewards then adv ! Suc t else 0)))"
proof -
  let ?steps = "zip rewards (zip terms (zip dones (zip vals next_values)))"
  let ?adv = "gae_backward gamma lmbda ?steps"
  let ?ret = "map2 (+) ?adv vals"
  have ls: "length ?steps = length rewards"
    using assms(1-4) by (simp only: length_zip)
  have la: "length ?adv = length rewards" unfolding gae_backward_length by (rule ls)
  have st: "?steps ! t = (rewards ! t, terms ! t, dones ! t, vals ! t, next_values ! t)"
    using assms by simp
  have res: "GAE gamma lmbda rewards terms dones vals next_values = Inr (?adv, ?ret)"
    using assms by (simp add: GAE_def Let_def)
  have lr: "length ?ret = length rewards" using la assms by simp
  have rt: "?ret ! t = ?adv ! t + vals ! t" using la assms by simp
  have step: "?adv ! t = gae_advantage gamma lmbda (rewards ! t) (terms ! t) (dones ! t) (vals ! t)
                 (next_values ! t) (if Suc t < length rewards then ?adv ! Suc t else 0)"
    using gae_backward_nth[of t ?steps gamma lmbda] assms(5) unfolding st ls by simp
  have d: "dones ! t \<longrightarrow> ?adv ! t = rewards ! t - vals ! t"
    using step by (simp add: gae_advantage_done)
  have tm: "\<not> dones ! t \<and> terms ! t \<longrightarrow>
           ?adv ! t = rewards ! t + gamma * next_values ! t - vals ! t"
    using step by (simp add: gae_advantage_term)
  have run: "\<not> dones ! t \<and> \<not> terms ! t \<longrightarrow>
           ?adv ! t = rewards ! t + gamma * next_values ! t - vals ! t
                     + gamma * lmbda * (if Suc t < length rewards then ?adv ! Suc t else 0)"
    using step by (simp add: gae_advantage_running)
  have call: "PPOPolicy_compute_advantage reward terms dones vals next_values
       = GAE (99/100) (95/100) (map sum_list reward) terms dones vals next_values"
    by (simp add: PPOPolicy_compute_advantage_def ValueNormFake_denormalize_def
          ValueNormFake_normalize_def split: sum.splits)
  from res la lr rt d tm run have "\<exists>adv ret.
       GAE gamma lmbda rewards terms dones vals next_values = Inr (adv, ret)
     \<and> length adv = length rewards \<and> length ret = length rewards
     \<and> ret ! t = adv ! t + vals ! t
     \<and> (dones ! t \<longrightarrow> adv ! t = rewards ! t - vals ! t)
     \<and> (\<not> dones ! t \<and> terms ! t \<longrightarrow>
           adv ! t = rewards ! t + gamma * next_values ! t - vals ! t)
     \<and> (\<not> dones ! t \<and> \<not> terms ! t \<longrightarrow>
           adv ! t = rewards ! t + gamma * next_values ! t - vals ! t
                     + gamma * lmbda * (if Suc t < length rewards then adv ! Suc t else 0))"
    by blast
  moreover have "MAPPOPolicy_train_op_gae compute_gae denormalize gae_gamma gae_lambda
           (Rollout rs ts ds ads vs) next_value
       = MAPPOPolicy_train_op_gae compute_gae denormalize gae_gamma gae_lambda
           (Rollout rs ts' ds ads vs) next_value"
    by (simp add: MAPPOPolicy_train_op_gae_def MAPPOPolicy_get_dones_def)
  moreover have "PPOAdaptivePolicy_train_policy_gae compute_gae' denormalize
           (Rollout rs ts ds ads vs) next_value
       = PPOAdaptivePolicy_train_policy_gae compute_gae' denormalize
           (Rollout rs ts' ds ads vs) next_value"
    by (simp add: PPOAdaptivePolicy_train_policy_gae_def)
  ultimately show ?thesis using call by blast
qed

theorem gae_done_stops_propagation_witness:
  "length [False, True, False] = length [1, 1, 1::real]
   \<and> length [5, 5, 5::real] = length [1, 1, 1::real] \<and> (1::nat) < length [1, 1, 1::real]
   \<and> GAE 1 1 [1, 1, 1] [False, False, False] [False, True, False] [0, 0, 0] [5, 5, 5]
        = Inr ([7, 1, 6], [7, 1, 6])
   \<and> GAE 1 1 [1, 1, 1] [False, True, False] [False, True, False] [0, 0, 0] [5, 5, 5]
        = Inr ([7, 1, 6], [7, 1, 6])"
proof -
  have e: "GAE 1 1 [1, 1, 1] [False, False, False] [False, True, False] [0, 0, 0] [5, 5, 5]
        = Inr ([7, 1, 6], [7, 1, 6])"
    "GAE 1 1 [1, 1, 1] [False, True, False] [False, True, False] [0, 0, 0] [5, 5, 5]
        = Inr ([7, 1, 6], [7, 1, 6])"
    by (simp_all add: GAE_def gae_advantage_def Let_def)
  show ?thesis
    using gae_done_stops_propagation
            [where terms = "[False, False, False]" and rewards = "[1, 1, 1]"
               and dones = "[False, True, False]" and vals = "[0, 0, 0]"
               and next_values = "[5, 5, 5]" and t = 1 and gamma = 1 and lmbda = 1] e
    by simp
qed

text \<open>
  Claim C3 as stated fails at \<open>MAPPOPolicy.train_op\<close>: two batches that differ only in
  a termination flag, at a step that is not done, hand the estimator the same
  arguments, while the estimator of \<open>PPOPolicy\<close> separates them.
\<close>

theorem mappo_estimator_inputs_counterexample:
  "MAPPOPolicy_train_op_gae (\<lambda>r d v nv g l. (r, d, v, nv, g, l)) (\<lambda>x. x) 1 1
      (Rollout [1, 1] [True, False] [False, False] None [0, 0]) 0
     = MAPPOPolicy_train_op_gae (\<lambda>r d v nv g l. (r, d, v, nv, g, l)) (\<lambda>x. x) 1 1
      (Rollout [1, 1] [False, False] [False, False] None [0, 0]) 0
   \<and> GAE 1 1 [1, 1] [True, False] [False, False] [0, 0] [0, 0] = Inr ([1, 1], [1, 1])
   \<and> GAE 1 1 [1, 1] [False, False] [False, False] [0, 0] [0, 0] = Inr ([2, 1], [2, 1])"
  by (simp add: MAPPOPolicy_train_op_gae_def MAPPOPolicy_get_dones_def GAE_def
        gae_advantage_def Let_def)

section \<open>Properties of the adaptation phase\<close>

lemma collect_replicate: "collect (replicate n (Inr x)) = Inr (replicate n x)"
  by (induction n) simp_all

lemma concat_replicate_replicate: "concat (replicate m (replicate n x)) = replicate (m * n) x"
  by (induction m) (simp_all add: replicate_add)

lemma encoder_forward_collected:
  "encoder_forward False {} collected = Inr (collected(''context'' \<mapsto> {}))"
  by (simp add: encoder_forward_def module_forward_def collected_def)

lemma discriminator_forward_context:
  assumes "td ''agents.observation_h'' = Some {}" and "td ''context'' = Some {}"
  shows "discriminator_forward True {} ''context'' td
       = Inr (td(''condition'' \<mapsto> {Discriminator}, ''label'' \<mapsto> {Discriminator}))"
  using assms by (simp add: discriminator_forward_def module_forward_def then_do_def)

lemma GAN_forward_batch:
  "GAN_forward ''context'' (collected(''context'' \<mapsto> {}))
     = Inr [(D_loss, {Discriminator}), (G_loss, {Discriminator})]"
proof -
  let ?td0 = "collected(''context'' \<mapsto> {})"
  let ?td1 = "?td0(''condition'' \<mapsto> {Discriminator}, ''label'' \<mapsto> {Discriminator})"
  have d1: "discriminator_forward True {} ''context'' ?td0 = Inr ?td1"
    by (rule discriminator_forward_context) (simp_all add: collected_def)
  have l1: "td_get ?td1 ''label'' = Inr {Discriminator}" by (simp add: td_get_def)
  let ?td2 = "?td1(''context'' \<mapsto> {})"
  have a2: "adaptation_module_forward False {} ''context'' ?td1 = Inr ?td2"
    by (simp add: adaptation_module_forward_def module_forward_def collected_def)
  let ?td3 = "?td2(''condition'' \<mapsto> {Discriminator}, ''label'' \<mapsto> {Discriminator})"
  have d3: "discriminator_forward True {} ''context'' ?td2 = Inr ?td3"
    by (rule discriminator_forward_context) (simp_all add: collected_def)
  have l3: "td_get ?td3 ''label'' = Inr {Discriminator}" by (simp add: td_get_def)
  let ?td4 = "?td3(''context'' \<mapsto> {AdaptationModule})"
  have a4: "adaptation_module_forward True {Discriminator} ''context'' ?td3 = Inr ?td4"
    by (simp add: adaptation_module_forward_def module_forward_def collected_def)
  have l4: "td_get ?td4 ''label'' = Inr {Discriminator}" by (simp add: td_get_def)
  have "GAN_forward ''context'' ?td0
      = Inr [(D_loss, {Discriminator} \<union> {Discriminator}), (G_loss, {Discriminator})]"
    by (simp only: GAN_forward_def then_do_def d1 l1 a2 d3 l3 a4 l4 sum.case Let_def)
  then show ?thesis by simp
qed

lemma MSE_forward_batch:
  "MSE_forward ''context'' (collected(''context'' \<mapsto> {}))
     = Inr [(Regression_loss, {AdaptationModule})]"
  by (simp add: MSE_forward_def td_get_def adaptation_module_forward_def module_forward_def
        then_do_def collected_def)

lemma LSGAN_forward_batch:
  "LSGAN_forward ''context'' (collected(''context'' \<mapsto> {}))
     = Inr [(LS_loss, {AdaptationModule, Discriminator})]"
proof -
  let ?td0 = "collected(''context'' \<mapsto> {})"
  let ?td1 = "?td0(''condition'' \<mapsto> {Discriminator}, ''label'' \<mapsto> {Discriminator})"
  have d1: "discriminator_forward True {} ''context'' ?td0 = Inr ?td1"
    by (rule discriminator_forward_context) (simp_all add: collected_def)
  have l1: "td_get ?td1 ''label'' = Inr {Discriminator}" by (simp add: td_get_def)
  let ?td2 = "?td1(''context'' \<mapsto> {AdaptationModule})"
  have a2: "adaptation_module_forward True {} ''context'' ?td1 = Inr ?td2"
    by (simp add: adaptation_module_forward_def module_forward_def collected_def)
  have d3: "discriminator_forward True {} ''context'' ?td2
      = Inr (?td2(''condition'' \<mapsto> {Discriminator, AdaptationModule},
                  ''label'' \<mapsto> {Discriminator, AdaptationModule}))"
    by (simp add: discriminator_forward_def module_forward_def then_do_def collected_def
          insert_commute)
  have l3: "td_get (?td2(''condition'' \<mapsto> {Discriminator, AdaptationModule},
                         ''label'' \<mapsto> {Discriminator, AdaptationModule})) ''label''
      = Inr {Discriminator, AdaptationModule}"
    by (simp add: td_get_def)
  have "LSGAN_forward ''context'' ?td0
      = Inr [(LS_loss, {Discriminator, AdaptationModule} \<union> {Discriminator})]"
    by (simp only: LSGAN_forward_def then_do_def d1 l1 a2 d3 l3 sum.case)
  then show ?thesis by (simp add: insert_commute)
qed

lemma train_adaptation_GAN:
  "train_adaptation GAN ''context'' k collected
     = Inr (replicate (4 * k)
             ([AdaptationModule, Discriminator],
              [(D_loss, {Discriminator}), (G_loss, {Discriminator})]))"
  by (simp add: train_adaptation_def encoder_forward_collected update_on_batch_def
        GAN_forward_batch then_do_def collect_replicate concat_replicate_replicate)

text \<open>
  Claim C8, as the code has it. With the adversarial loss, an adaptation-phase update
  over \<open>k\<close> minibatches makes \<open>4 * k\<close> optimizer steps, each of the one optimizer
  \<open>adapt_opt\<close>, which holds the parameters of the adaptation module and of the
  discriminator, and each after a backward pass from the sum of the discriminator's
  loss and the generator's loss.
\<close>

theorem gan_adaptation_single_joint_step:
  "\<exists>steps. train_adaptation GAN ''context'' k collected = Inr steps
     \<and> optimizer_steps steps = replicate (4 * k) [AdaptationModule, Discriminator]
     \<and> step_losses steps = replicate (4 * k) [D_loss, G_loss]"
proof -
  let ?step = "([AdaptationModule, Discriminator],
                [(D_loss, {Discriminator}), (G_loss, {Discriminator})])"
  have run: "train_adaptation GAN ''context'' k collected = Inr (replicate (4 * k) ?step)"
    by (rule train_adaptation_GAN)
  have opt: "optimizer_steps (replicate (4 * k) ?step)
      = replicate (4 * k) [AdaptationModule, Discriminator]"
    by (simp add: optimizer_steps_def)
  have loss: "step_losses (replicate (4 * k) ?step) = replicate (4 * k) [D_loss, G_loss]"
    by (simp add: step_losses_def)
  from run opt loss show ?thesis by blast
qed

text \<open>
  Claim C8 as stated fails in both halves. The optimizer steps of an update over one
  minibatch do not alternate between the discriminator and the adaptation module. And
  the generator's loss is computed from the label that the discriminator wrote before
  the \<^verbatim>\<open>hold_out_net\<close> context was entered: a backward pass from it reaches the
  parameters of the discriminator, and none of the adaptation module.
\<close>

theorem gan_adaptation_alternation_counterexample:
  "train_adaptation GAN ''context'' 1 collected
     = Inr (replicate 4 ([AdaptationModule, Discriminator],
                         [(D_loss, {Discriminator}), (G_loss, {Discriminator})]))
   \<and> \<not> alternating_steps
         (optimizer_steps (replicate 4 ([AdaptationModule, Discriminator],
                                        [(D_loss, {Discriminator}), (G_loss, {Discriminator})])))
   \<and> g_loss_graphs (replicate 4 ([AdaptationModule, Discriminator],
                                  [(D_loss, {Discriminator}), (G_loss, {Discriminator})]))
       = replicate 4 {Discriminator}"
proof -
  have "train_adaptation GAN ''context'' 1 collected
     = Inr (replicate 4 ([AdaptationModule, Discriminator],
                         [(D_loss, {Discriminator}), (G_loss, {Discriminator})]))"
    using train_adaptation_GAN[of 1] by simp
  then show ?thesis
    by (simp add: alternating_steps_def optimizer_steps_def g_loss_graphs_def eval_nat_numeral)
qed


end
